theory Spec2Isabelle
  imports Main "HOL-Library.Sublist"
begin

section \<open>Strings, character classes and patterns\<close>

text \<open>
  A JavaScript string is modelled as a list of characters, one per code unit; the
  characters are the code units U+0000 to U+00FF, which hold every character the
  patterns of the source name. \<open>code c\<close> is the code unit as a number.
\<close>

definition code :: "char \<Rightarrow> nat" where
  "code c = of_char c"

text \<open>The classes \<^verbatim>\<open>[A-Z]\<close>, \<^verbatim>\<open>[a-z]\<close>, \<^verbatim>\<open>[0-9]\<close>, \<^verbatim>\<open>[A-Za-z]\<close> and \<^verbatim>\<open>\s\<close>.\<close>

definition upperCase :: "char \<Rightarrow> bool" where
  "upperCase c = (65 \<le> code c \<and> code c \<le> 90)"

definition lowerCase :: "char \<Rightarrow> bool" where
  "lowerCase c = (97 \<le> code c \<and> code c \<le> 122)"

definition number :: "char \<Rightarrow> bool" where
  "number c = (48 \<le> code c \<and> code c \<le> 57)"

definition letter :: "char \<Rightarrow> bool" where
  "letter c = (upperCase c \<or> lowerCase c)"

definition whiteSpace :: "char \<Rightarrow> bool" where
  "whiteSpace c = (code c \<in> {9, 10, 11, 12, 13, 32, 160})"

text \<open>
  The symbol class of the validator library's password rule: the ASCII punctuation
  characters, the pound sign and the space.
\<close>

definition symbols :: string where
  "symbols = ''-#!$@'' @ [CHR 0xA3] @ ''%^&*()_+|~='' @ [CHR 0x60] @ ''{}[]:'' @ [CHR 0x22]
     @ '';'' @ [CHR 0x27] @ ''<>?,./'' @ [CHR 0x5C] @ '' ''"

definition symbol :: "char \<Rightarrow> bool" where
  "symbol c = (c \<in> set symbols)"

text \<open>
  The anchored patterns of the source (\<^verbatim>\<open>/^...$/\<close>) are sequences of atoms: one character
  of a class, or one or more characters of a class (\<^verbatim>\<open>+\<close>). \<open>matches\<close> tries every split,
  as the backtracking matcher does.
\<close>

datatype atom = One "char \<Rightarrow> bool" | Many "char \<Rightarrow> bool"

fun matches :: "atom list \<Rightarrow> string \<Rightarrow> bool" where
  "matches [] s = (s = [])"
| "matches (One p # r) [] = False"
| "matches (One p # r) (c # s) = (p c \<and> matches r s)"
| "matches (Many p # r) [] = False"
| "matches (Many p # r) (c # s) = (p c \<and> (matches r s \<or> matches (Many p # r) s))"

text \<open>\<^verbatim>\<open>/^[A-Za-z\s]+$/\<close>, used by the routes and by the schema for \<open>fullName\<close>.\<close>

definition fullName_pattern :: "atom list" where
  "fullName_pattern = [Many (\<lambda>c. letter c \<or> whiteSpace c)]"

text \<open>\<^verbatim>\<open>/^[^\s@]+@[^\s@]+\.[^\s@]+$/\<close>, the schema's pattern for \<open>email\<close>.\<close>

definition not_space_at :: "char \<Rightarrow> bool" where
  "not_space_at c = (\<not> whiteSpace c \<and> c \<noteq> CHR ''@'')"

definition email_pattern :: "atom list" where
  "email_pattern =
     [Many not_space_at, One (\<lambda>c. c = CHR ''@''), Many not_space_at,
      One (\<lambda>c. c = CHR ''.''), Many not_space_at]"

text \<open>\<^verbatim>\<open>s.includes(t)\<close>: \<open>t\<close> occurs in \<open>s\<close> as a contiguous piece.\<close>

fun str_includes :: "string \<Rightarrow> string \<Rightarrow> bool" where
  "str_includes [] t = (t = [])"
| "str_includes (c # s) t = (prefix t (c # s) \<or> str_includes s t)"

text \<open>\<^verbatim>\<open>/jpeg|jpg|png|gif/.test(s)\<close>: unanchored, so one of the four words occurs in \<open>s\<close>.\<close>

definition fileTypes_test :: "string \<Rightarrow> bool" where
  "fileTypes_test s =
     (str_includes s ''jpeg'' \<or> str_includes s ''jpg'' \<or> str_includes s ''png''
      \<or> str_includes s ''gif'')"

text \<open>\<^verbatim>\<open>s.toLowerCase()\<close> on ASCII text: the letters A to Z become a to z.\<close>

definition toLowerCase :: "string \<Rightarrow> string" where
  "toLowerCase s =
     map (\<lambda>c. case map_of (zip ''ABCDEFGHIJKLMNOPQRSTUVWXYZ'' ''abcdefghijklmnopqrstuvwxyz'') c of
                None \<Rightarrow> c | Some lower \<Rightarrow> lower) s"

text \<open>
  \<^verbatim>\<open>s.split(/\s+/)\<close> with the empty pieces dropped: the maximal runs of characters that are
  not white space. \<open>words_from cur s\<close> carries the run read so far.
\<close>

fun words_from :: "string \<Rightarrow> string \<Rightarrow> string list" where
  "words_from cur [] = (if cur = [] then [] else [cur])"
| "words_from cur (c # s) =
     (if whiteSpace c then (if cur = [] then words_from [] s else cur # words_from [] s)
      else words_from (cur @ [c]) s)"

definition split_spaces :: "string \<Rightarrow> string list" where
  "split_spaces s = words_from [] s"

text \<open>The decimal digits of a number, as string concatenation renders \<^verbatim>\<open>Date.now()\<close>.\<close>

function toString :: "nat \<Rightarrow> string" where
  "toString n =
     (if n < 10 then [''0123456789'' ! n]
      else toString (n div 10) @ [''0123456789'' ! (n mod 10)])"
  by pat_completeness auto
termination
  by (relation "measure id") auto

declare toString.simps [simp del]

section \<open>Request validators\<close>

text \<open>
  \<^verbatim>\<open>isStrongPassword\<close> of the validator library, with the options the routes pass. The
  library counts the characters of each class (a character is tested against the
  classes in the order upper, lower, number, symbol) and compares the counts and the
  length with the minima.
\<close>

record password_options =
  minLength :: nat
  minUppercase :: nat
  minLowercase :: nat
  minNumbers :: nat
  minSymbols :: nat

datatype char_class = Uppercase | Lowercase | Number | Symbol | Other

definition classify :: "char \<Rightarrow> char_class" where
  "classify c =
     (if upperCase c then Uppercase
      else if lowerCase c then Lowercase
      else if number c then Number
      else if symbol c then Symbol
      else Other)"

definition count_class :: "char_class \<Rightarrow> string \<Rightarrow> nat" where
  "count_class k str = length (filter (\<lambda>c. classify c = k) str)"

definition isStrongPassword :: "string \<Rightarrow> password_options \<Rightarrow> bool" where
  "isStrongPassword str options =
     (length str \<ge> minLength options
      \<and> count_class Lowercase str \<ge> minLowercase options
      \<and> count_class Uppercase str \<ge> minUppercase options
      \<and> count_class Number str \<ge> minNumbers options
      \<and> count_class Symbol str \<ge> minSymbols options)"

text \<open>The options object written out in the create and edit routes.\<close>

definition route_options :: password_options where
  "route_options =
     \<lparr>minLength = 8, minUppercase = 1, minLowercase = 1, minNumbers = 1, minSymbols = 1\<rparr>"

text \<open>
  \<^verbatim>\<open>validationResult(req)\<close>: the fields whose validation chain failed. A route that
  declares no chain has nothing to report.
\<close>

definition validationResult :: "(string \<times> bool) list \<Rightarrow> string list" where
  "validationResult checks = map fst (filter (\<lambda>(field, ok). \<not> ok) checks)"

section \<open>The User model\<close>

text \<open>
  A stored document of the \<open>User\<close> collection. \<open>uid\<close> is the document's \<^verbatim>\<open>_id\<close>;
  \<open>imagePath\<close> is \<open>None\<close> for \<^verbatim>\<open>null\<close>.
\<close>

record user =
  uid :: nat
  fullName :: string
  email :: string
  password :: string
  imagePath :: "string option"

datatype schema_path = FullName | Email | Password | ImagePath

text \<open>
  A document in memory, with the bookkeeping \<^verbatim>\<open>save\<close> relies on: whether it is new and
  which paths were modified. \<open>doc_password\<close> is \<open>None\<close> (\<^verbatim>\<open>undefined\<close>) in a document
  loaded by a query, because the schema declares \<^verbatim>\<open>select: false\<close>.
\<close>

record document =
  doc_id :: nat
  doc_fullName :: string
  doc_email :: string
  doc_password :: "string option"
  doc_imagePath :: "string option"
  isNew :: bool
  modifiedPaths :: "schema_path list"

definition isModified :: "document \<Rightarrow> schema_path \<Rightarrow> bool" where
  "isModified d p = (p \<in> set (modifiedPaths d))"

text \<open>
  The identifier a new document gets is one that no stored document has, as a generated
  \<^verbatim>\<open>ObjectId\<close> is.
\<close>

definition fresh_id :: "user list \<Rightarrow> nat" where
  "fresh_id us = Suc (foldr max (map uid us) 0)"

text \<open>\<^verbatim>\<open>new User({fullName, email, password})\<close>; \<open>imagePath\<close> takes its default \<^verbatim>\<open>null\<close>.\<close>

definition new_User :: "nat \<Rightarrow> string \<Rightarrow> string \<Rightarrow> string \<Rightarrow> document" where
  "new_User i name mail pw =
     \<lparr>doc_id = i, doc_fullName = name, doc_email = mail, doc_password = Some pw,
      doc_imagePath = None, isNew = True, modifiedPaths = [FullName, Email, Password]\<rparr>"

text \<open>A stored document as a query returns it: the password is not selected.\<close>

definition hydrate :: "user \<Rightarrow> document" where
  "hydrate u =
     \<lparr>doc_id = uid u, doc_fullName = fullName u, doc_email = email u, doc_password = None,
      doc_imagePath = imagePath u, isNew = False, modifiedPaths = []\<rparr>"

text \<open>Assignments to a path mark it modified when the value changes.\<close>

definition set_fullName :: "document \<Rightarrow> string \<Rightarrow> document" where
  "set_fullName d v =
     d\<lparr>doc_fullName := v,
       modifiedPaths :=
         (if isNew d \<or> doc_fullName d \<noteq> v then FullName # modifiedPaths d
          else modifiedPaths d)\<rparr>"

definition set_password :: "document \<Rightarrow> string \<Rightarrow> document" where
  "set_password d v =
     d\<lparr>doc_password := Some v,
       modifiedPaths :=
         (if isNew d \<or> doc_password d \<noteq> Some v then Password # modifiedPaths d
          else modifiedPaths d)\<rparr>"

definition set_imagePath :: "document \<Rightarrow> string \<Rightarrow> document" where
  "set_imagePath d v =
     d\<lparr>doc_imagePath := Some v,
       modifiedPaths :=
         (if isNew d \<or> doc_imagePath d \<noteq> Some v then ImagePath # modifiedPaths d
          else modifiedPaths d)\<rparr>"

text \<open>Errors are values; the handlers' \<^verbatim>\<open>catch\<close> blocks receive them.\<close>

datatype error =
    ValidationError document
  | MongoServerError string
  | DocumentNotFoundError nat
  | TypeError string
  | Error string
  | MulterError string

text \<open>
  The libraries the repository calls are parameters of the model: the email validator
  and sanitizer of the validator library (the sanitized address is taken to be a string),
  the salted hash of the bcrypt library (salt, data, cost), and the wording of the
  messages of errors the database layer builds. The database is taken to be reachable.
\<close>

record lib =
  isEmail :: "string \<Rightarrow> bool"
  normalizeEmail :: "string \<Rightarrow> string"
  bcrypt_hash :: "string \<Rightarrow> string \<Rightarrow> nat \<Rightarrow> string"
  errorText :: "error \<Rightarrow> string"

definition message :: "lib \<Rightarrow> error \<Rightarrow> string" where
  "message l e =
     (case e of TypeError m \<Rightarrow> m | Error m \<Rightarrow> m | _ \<Rightarrow> errorText l e)"

text \<open>The schema's validators: \<^verbatim>\<open>required\<close> and \<^verbatim>\<open>match\<close> (which lets the empty string pass).\<close>

definition required :: "string \<Rightarrow> bool" where
  "required v = (v \<noteq> [])"

definition match :: "atom list \<Rightarrow> string \<Rightarrow> bool" where
  "match pattern v = (v = [] \<or> matches pattern v)"

text \<open>
  Validation before a save: the loaded paths and the modified ones. The password of a
  loaded document is not selected, so it is validated only when new or modified.
\<close>

definition validate :: "document \<Rightarrow> bool" where
  "validate d =
     (required (doc_fullName d) \<and> match fullName_pattern (doc_fullName d)
      \<and> required (doc_email d) \<and> match email_pattern (doc_email d)
      \<and> (if isNew d \<or> isModified d Password
         then (case doc_password d of None \<Rightarrow> False | Some p \<Rightarrow> required p)
         else True))"

text \<open>
  The schema's \<^verbatim>\<open>pre('save')\<close> hook: a modified password is replaced by its hash. The
  hash of \<^verbatim>\<open>undefined\<close> is the hashing library's error.
\<close>

definition pre_save :: "lib \<Rightarrow> string \<Rightarrow> document \<Rightarrow> error + document" where
  "pre_save l salt this =
     (if isModified this Password
      then (case doc_password this of
              None \<Rightarrow> Inl (Error ''Illegal arguments: undefined, number'')
            | Some p \<Rightarrow> Inr (this\<lparr>doc_password := Some (bcrypt_hash l salt p 10)\<rparr>))
      else Inr this)"

text \<open>Insertion of a new document; the unique index on \<open>email\<close> refuses a duplicate.\<close>

definition insertOne :: "document \<Rightarrow> user list \<Rightarrow> error + user list" where
  "insertOne d us =
     (case doc_password d of
        None \<Rightarrow> Inl (ValidationError d)
      | Some p \<Rightarrow>
          if \<exists>u \<in> set us. email u = doc_email d then Inl (MongoServerError (doc_email d))
          else Inr (us @ [\<lparr>uid = doc_id d, fullName = doc_fullName d, email = doc_email d,
                           password = p, imagePath = doc_imagePath d\<rparr>]))"

text \<open>The update a save of a loaded document sends: the modified paths only.\<close>

definition apply_changes :: "document \<Rightarrow> user \<Rightarrow> user" where
  "apply_changes d u =
     u\<lparr>fullName := (if isModified d FullName then doc_fullName d else fullName u),
       email := (if isModified d Email then doc_email d else email u),
       password :=
         (if isModified d Password
          then (case doc_password d of None \<Rightarrow> password u | Some p \<Rightarrow> p)
          else password u),
       imagePath := (if isModified d ImagePath then doc_imagePath d else imagePath u)\<rparr>"

fun update_by_id :: "nat \<Rightarrow> (user \<Rightarrow> user) \<Rightarrow> user list \<Rightarrow> user list option" where
  "update_by_id i f [] = None"
| "update_by_id i f (u # us) =
     (if uid u = i then Some (f u # us)
      else map_option (\<lambda>r. u # r) (update_by_id i f us))"

definition updateOne :: "document \<Rightarrow> user list \<Rightarrow> error + user list" where
  "updateOne d us =
     (case update_by_id (doc_id d) (apply_changes d) us of
        None \<Rightarrow> Inl (DocumentNotFoundError (doc_id d))
      | Some us' \<Rightarrow> Inr us')"

text \<open>\<^verbatim>\<open>doc.save()\<close>: validation, then the schema's hook, then the write.\<close>

definition save :: "lib \<Rightarrow> string \<Rightarrow> document \<Rightarrow> user list \<Rightarrow> error + user list" where
  "save l salt d us =
     (if \<not> validate d then Inl (ValidationError d)
      else (case pre_save l salt d of
              Inl e \<Rightarrow> Inl e
            | Inr d' \<Rightarrow> if isNew d' then insertOne d' us else updateOne d' us))"

text \<open>\<^verbatim>\<open>User.findOne({ email })\<close>: the first stored document with that email, if any.\<close>

definition findOne :: "user list \<Rightarrow> string \<Rightarrow> document option" where
  "findOne us mail = map_option hydrate (find (\<lambda>u. email u = mail) us)"

text \<open>\<^verbatim>\<open>doc.deleteOne()\<close>: the document with that identifier is removed.\<close>

fun delete_by_id :: "nat \<Rightarrow> user list \<Rightarrow> user list" where
  "delete_by_id i [] = []"
| "delete_by_id i (u # us) = (if uid u = i then us else u # delete_by_id i us)"

text \<open>
  A stored document as the fields a query can return, each with its name (the last is
  the version key that the model layer adds to every document), and the paths the
  schema declares \<^verbatim>\<open>select: false\<close>.
\<close>

datatype field_value = ObjectId nat | String string | Num nat | Null

definition toObject :: "user \<Rightarrow> (string \<times> field_value) list" where
  "toObject u =
     [(''_id'', ObjectId (uid u)),
      (''fullName'', String (fullName u)),
      (''email'', String (email u)),
      (''password'', String (password u)),
      (''imagePath'', case imagePath u of None \<Rightarrow> Null | Some p \<Rightarrow> String p),
      (''__v'', Num 0)]"

definition unselected :: "string list" where
  "unselected = [''password'']"

text \<open>
  A projection string names paths, separated by white space: a word is a path to
  include, or, with a leading \<^verbatim>\<open>-\<close>, a path to leave out.
\<close>

definition parse_select :: "string \<Rightarrow> (string \<times> bool) list" where
  "parse_select s =
     map (\<lambda>w. case w of
                 [] \<Rightarrow> (w, True)
               | c # r \<Rightarrow> if c = CHR ''-'' then (r, False) else (w, True))
       (split_spaces s)"

text \<open>
  The fields a query returns. When the projection includes paths, the result holds
  those paths, whether or not the schema selects them, and the identifier unless it is
  left out by name. Otherwise the result holds every field that is neither left out by
  name nor unselected by the schema.
\<close>

definition select_fields ::
  "(string \<times> bool) list \<Rightarrow> (string \<times> field_value) list \<Rightarrow> (string \<times> field_value) list" where
  "select_fields sel obj =
     (let included = map fst (filter snd sel);
          excluded = map fst (filter (\<lambda>x. \<not> snd x) sel)
      in if included = []
         then filter (\<lambda>(k, v). k \<notin> set excluded \<and> k \<notin> set unselected) obj
         else filter (\<lambda>(k, v). (k = ''_id'' \<and> ''_id'' \<notin> set excluded) \<or> k \<in> set included) obj)"

text \<open>\<^verbatim>\<open>User.find({}, projection)\<close>: every stored document, projected.\<close>

definition find_all :: "user list \<Rightarrow> string \<Rightarrow> (string \<times> field_value) list list" where
  "find_all us projection = map (\<lambda>u. select_fields (parse_select projection) (toObject u)) us"

section \<open>Requests, responses and the stored state\<close>

text \<open>
  The body of a JSON request, with the fields the handlers read. The model covers the
  requests whose fields are strings.
\<close>

record body =
  body_email :: string
  body_fullName :: string
  body_password :: string

text \<open>
  The file part of a multipart request, with the name, the media type and the bytes it
  declares, and what the upload middleware leaves in \<^verbatim>\<open>req.file\<close>.
\<close>

record upload_file =
  originalname :: string
  mimetype :: string
  content :: string

record stored_file =
  path :: string
  filename :: string

datatype request =
    Create body
  | Edit body
  | Delete body
  | GetAll
  | UploadImage body "upload_file option"

text \<open>
  What a request draws from its environment: the clock (\<^verbatim>\<open>Date.now()\<close>) and the salts of
  the two calls of the hash, the handler's and the hook's.
\<close>

record env =
  now :: nat
  handler_salt :: string
  hook_salt :: string

text \<open>The collection of users and the files of the \<^verbatim>\<open>images/\<close> directory.\<close>

record state =
  users :: "user list"
  files :: "string \<rightharpoonup> string"

datatype json =
    ErrorOnly string
  | ErrorDetails string string
  | MessageOnly string
  | UsersList "(string \<times> field_value) list list"
  | MessageFile string string

text \<open>
  The router either answers, or a middleware hands an error to the framework
  (\<^verbatim>\<open>next(err)\<close>). The application registers no error handler, so the framework's own
  answers such an error with status 500.
\<close>

datatype outcome = Response nat json | NextError error

definition status_of :: "outcome \<Rightarrow> nat" where
  "status_of out = (case out of Response st b \<Rightarrow> st | NextError e \<Rightarrow> 500)"

section \<open>The upload middleware\<close>

text \<open>The \<^verbatim>\<open>fileFilter\<close> of the source: both tests read the file's \<^verbatim>\<open>mimetype\<close>.\<close>

definition fileFilter :: "upload_file \<Rightarrow> error + bool" where
  "fileFilter f =
     (let extname = fileTypes_test (mimetype f);
          mimetype = fileTypes_test (mimetype f)
      in if extname \<and> mimetype then Inr True
         else Inl (Error ''Invalid file format. Only JPEG, PNG, and GIF are allowed.''))"

definition fileSize_limit :: nat where
  "fileSize_limit = 5 * 1024 * 1024"

text \<open>The storage callbacks: the directory and the generated name.\<close>

definition destination :: string where
  "destination = ''images/''"

definition storage_filename :: "env \<Rightarrow> upload_file \<Rightarrow> string" where
  "storage_filename e f = toString (now e) @ ''-'' @ originalname f"

text \<open>
  The multipart parser hands a file part on with the media type it declares put in
  lower case.
\<close>

definition parsed :: "upload_file \<Rightarrow> upload_file" where
  "parsed sent = sent\<lparr>mimetype := toLowerCase (mimetype sent)\<rparr>"

text \<open>
  \<^verbatim>\<open>upload.single("image")\<close>: a request without a file part passes with \<^verbatim>\<open>req.file\<close>
  undefined. A file is filtered first; a refused file is not opened. An accepted file is
  written under the generated name; when its size reaches the limit the write is given
  up and the file is removed again, so that nothing is left under that name. The error
  of a rejected file goes to \<^verbatim>\<open>next\<close>, with the state the middleware leaves.
\<close>

definition upload_single ::
  "env \<Rightarrow> upload_file option \<Rightarrow> state
     \<Rightarrow> (error \<times> state) + (stored_file option \<times> state)" where
  "upload_single e part st =
     (case part of
        None \<Rightarrow> Inr (None, st)
      | Some sent \<Rightarrow>
          (let f = parsed sent
           in case fileFilter f of
                Inl err \<Rightarrow> Inl (err, st)
              | Inr accepted \<Rightarrow>
                  let name = storage_filename e f;
                      p = destination @ name
                  in if length (content f) \<ge> fileSize_limit
                     then Inl (MulterError ''LIMIT_FILE_SIZE'',
                               st\<lparr>files := (files st)(p := None)\<rparr>)
                     else Inr (Some \<lparr>path = p, filename = name\<rparr>,
                               st\<lparr>files := (files st)(p \<mapsto> content f)\<rparr>)))"

section \<open>The route handlers\<close>

text \<open>
  The validation chains declared in front of each handler, each with the field it
  checks and whether the field passed. The \<open>email\<close> chains also sanitize: the handler
  then reads the normalised address from the body.
\<close>

definition create_chains :: "lib \<Rightarrow> body \<Rightarrow> (string \<times> bool) list" where
  "create_chains l req =
     [(''email'', isEmail l (body_email req)),
      (''fullName'', matches fullName_pattern (body_fullName req)),
      (''password'', isStrongPassword (body_password req) route_options)]"

definition edit_chains :: "body \<Rightarrow> (string \<times> bool) list" where
  "edit_chains req =
     [(''fullName'', matches fullName_pattern (body_fullName req)),
      (''password'', isStrongPassword (body_password req) route_options)]"

definition delete_chains :: "lib \<Rightarrow> body \<Rightarrow> (string \<times> bool) list" where
  "delete_chains l req = [(''email'', isEmail l (body_email req))]"

definition sanitized :: "lib \<Rightarrow> body \<Rightarrow> body" where
  "sanitized l req = req\<lparr>body_email := normalizeEmail l (body_email req)\<rparr>"

text \<open>\<^verbatim>\<open>POST /create\<close>.\<close>

definition create :: "lib \<Rightarrow> env \<Rightarrow> body \<Rightarrow> state \<Rightarrow> outcome \<times> state" where
  "create l e req st =
     (let errors = validationResult (create_chains l req);
          b = sanitized l req
      in if errors \<noteq> [] then (Response 400 (ErrorOnly ''Validation failed''), st)
         else
           (case findOne (users st) (body_email b) of
              Some existingUser \<Rightarrow> (Response 400 (ErrorOnly ''Email already registered''), st)
            | None \<Rightarrow>
                let hashedPassword = bcrypt_hash l (handler_salt e) (body_password b) 10;
                    newUser = new_User (fresh_id (users st)) (body_fullName b) (body_email b)
                                hashedPassword
                in (case save l (hook_salt e) newUser (users st) of
                      Inl err \<Rightarrow>
                        (Response 500 (ErrorDetails ''User creation failed'' (message l err)), st)
                    | Inr us \<Rightarrow>
                        (Response 201 (MessageOnly ''User created successfully''),
                         st\<lparr>users := us\<rparr>))))"

text \<open>\<^verbatim>\<open>PUT /edit\<close>: no chain is declared for \<open>email\<close>, so the handler reads it as sent.\<close>

definition edit :: "lib \<Rightarrow> env \<Rightarrow> body \<Rightarrow> state \<Rightarrow> outcome \<times> state" where
  "edit l e req st =
     (let errors = validationResult (edit_chains req)
      in if errors \<noteq> [] then (Response 400 (ErrorOnly ''Validation failed''), st)
         else
           (case findOne (users st) (body_email req) of
              None \<Rightarrow> (Response 404 (ErrorOnly ''User not found''), st)
            | Some existingUser \<Rightarrow>
                let hashedPassword = bcrypt_hash l (handler_salt e) (body_password req) 10;
                    existingUser = set_fullName existingUser (body_fullName req);
                    existingUser = set_password existingUser hashedPassword
                in (case save l (hook_salt e) existingUser (users st) of
                      Inl err \<Rightarrow>
                        (Response 500 (ErrorDetails ''User Updation failed'' (message l err)), st)
                    | Inr us \<Rightarrow>
                        (Response 200 (MessageOnly ''User updated successfully.''),
                         st\<lparr>users := us\<rparr>))))"

text \<open>\<^verbatim>\<open>DELETE /delete\<close>.\<close>

definition delete :: "lib \<Rightarrow> env \<Rightarrow> body \<Rightarrow> state \<Rightarrow> outcome \<times> state" where
  "delete l e req st =
     (let errors = validationResult (delete_chains l req);
          b = sanitized l req
      in if errors \<noteq> [] then (Response 400 (ErrorOnly ''Validation failed''), st)
         else
           (case findOne (users st) (body_email b) of
              None \<Rightarrow> (Response 404 (ErrorOnly ''User not found''), st)
            | Some existingUser \<Rightarrow>
                (Response 200 (MessageOnly ''User deletion successful.''),
                 st\<lparr>users := delete_by_id (doc_id existingUser) (users st)\<rparr>)))"

text \<open>\<^verbatim>\<open>GET /getAll\<close>.\<close>

definition getAll :: "state \<Rightarrow> outcome \<times> state" where
  "getAll st =
     (let found = find_all (users st) ''fullName email password ''
      in (Response 200 (UsersList found), st))"

text \<open>
  \<^verbatim>\<open>POST /uploadImage\<close>, the handler behind the middleware. \<^verbatim>\<open>req.file.path\<close> on an
  undefined \<^verbatim>\<open>req.file\<close> throws a \<^verbatim>\<open>TypeError\<close> inside the \<^verbatim>\<open>try\<close>; the \<^verbatim>\<open>catch\<close> answers 400
  for a message that includes "Invalid file format" and 500 otherwise.
\<close>

definition truthy :: "string option \<Rightarrow> bool" where
  "truthy v = (case v of None \<Rightarrow> False | Some s \<Rightarrow> s \<noteq> [])"

definition undefined_path_message :: string where
  "undefined_path_message =
     ''Cannot read properties of undefined (reading '' @ [CHR 0x27] @ ''path'' @ [CHR 0x27] @ '')''"

definition uploadImage_catch :: "lib \<Rightarrow> error \<Rightarrow> outcome" where
  "uploadImage_catch l err =
     (if str_includes (message l err) ''Invalid file format''
      then Response 400 (ErrorOnly (message l err))
      else Response 500 (ErrorOnly ''Server error.''))"

definition uploadImage_handler ::
  "lib \<Rightarrow> env \<Rightarrow> body \<Rightarrow> stored_file option \<Rightarrow> state \<Rightarrow> outcome \<times> state" where
  "uploadImage_handler l e req req_file st =
     (let errors = validationResult []
      in if errors \<noteq> [] then (Response 400 (ErrorOnly ''Validation failed''), st)
         else
           (case findOne (users st) (body_email req) of
              None \<Rightarrow> (Response 404 (ErrorOnly ''User not found.''), st)
            | Some user \<Rightarrow>
                if truthy (doc_imagePath user)
                then (Response 400 (ErrorOnly ''Image already exists for this user.''), st)
                else
                  (case req_file of
                     None \<Rightarrow> (uploadImage_catch l (TypeError undefined_path_message), st)
                   | Some f \<Rightarrow>
                       let user = set_imagePath user (path f)
                       in (case save l (hook_salt e) user (users st) of
                             Inl err \<Rightarrow> (uploadImage_catch l err, st)
                           | Inr us \<Rightarrow>
                               (Response 201
                                  (MessageFile ''Image uploaded successfully.''
                                     (''/images/'' @ filename f)),
                                st\<lparr>users := us\<rparr>)))))"

text \<open>The route: the middleware first, the handler only when it passes.\<close>

definition uploadImage ::
  "lib \<Rightarrow> env \<Rightarrow> body \<Rightarrow> upload_file option \<Rightarrow> state \<Rightarrow> outcome \<times> state" where
  "uploadImage l e req part st =
     (case upload_single e part st of
        Inl (err, st') \<Rightarrow> (NextError err, st')
      | Inr (req_file, st') \<Rightarrow> uploadImage_handler l e req req_file st')"

text \<open>The router.\<close>

fun handle :: "lib \<Rightarrow> env \<Rightarrow> request \<Rightarrow> state \<Rightarrow> outcome \<times> state" where
  "handle l e (Create b) st = create l e b st"
| "handle l e (Edit b) st = edit l e b st"
| "handle l e (Delete b) st = delete l e b st"
| "handle l e GetAll st = getAll st"
| "handle l e (UploadImage b part) st = uploadImage l e b part st"

text \<open>
  An instance of the libraries and of the environment on which the handlers can be
  run: an address is accepted when it has the schema's shape, normalisation lower-cases
  the ASCII letters (what the sanitizer does to an address of a domain without rules of
  its own), and the hash is a tagged concatenation.
\<close>

definition sample_env :: env where
  "sample_env = \<lparr>now = 5, handler_salt = ''s1'', hook_salt = ''s2''\<rparr>"

definition sample_lib :: lib where
  "sample_lib =
     \<lparr>isEmail = matches email_pattern,
      normalizeEmail = toLowerCase,
      bcrypt_hash = (\<lambda>salt data cost. ''$2a$10$'' @ salt @ data),
      errorText = (\<lambda>err. ''error'')\<rparr>"

text \<open>
  The validator library also accepts an address whose local part is written in double
  quotes, white space between the quotes included. This instance accepts such addresses
  as well.
\<close>

definition quoted_char :: "char \<Rightarrow> bool" where
  "quoted_char c = (c \<noteq> CHR 0x22 \<and> c \<noteq> CHR 0x5C)"

definition quoted_address_pattern :: "atom list" where
  "quoted_address_pattern =
     [One (\<lambda>c. c = CHR 0x22), Many quoted_char, One (\<lambda>c. c = CHR 0x22),
      One (\<lambda>c. c = CHR ''@''), Many (\<lambda>c. letter c \<or> number c \<or> c = CHR ''-''),
      One (\<lambda>c. c = CHR ''.''), Many letter]"

definition quoting_lib :: lib where
  "quoting_lib =
     sample_lib\<lparr>isEmail :=
       (\<lambda>s. matches email_pattern s \<or> matches quoted_address_pattern s)\<rparr>"

section \<open>Facts about the validators and the model layer\<close>

lemma validationResult_Nil [simp]: "validationResult [] = []"
  by (simp add: validationResult_def)

lemma validationResult_Cons [simp]:
  "validationResult ((field, ok) # checks) =
     (if ok then validationResult checks else field # validationResult checks)"
  by (simp add: validationResult_def)

lemma create_chains_pass:
  "(validationResult (create_chains l req) = []) =
     (isEmail l (body_email req) \<and> matches fullName_pattern (body_fullName req)
      \<and> isStrongPassword (body_password req) route_options)"
  by (simp add: create_chains_def)

lemma edit_chains_pass:
  "(validationResult (edit_chains req) = []) =
     (matches fullName_pattern (body_fullName req)
      \<and> isStrongPassword (body_password req) route_options)"
  by (simp add: edit_chains_def)

lemma delete_chains_pass:
  "(validationResult (delete_chains l req) = []) = isEmail l (body_email req)"
  by (simp add: delete_chains_def)

lemma matches_fullName_Nil [simp]: "\<not> matches fullName_pattern []"
  by (simp add: fullName_pattern_def)

lemma matches_email_Nil [simp]: "\<not> matches email_pattern []"
  by (simp add: email_pattern_def)

lemma findOne_None_iff: "(findOne us m = None) = (\<forall>u \<in> set us. email u \<noteq> m)"
  by (auto simp: findOne_def find_None_iff)

lemma find_Some_mem: "find P us = Some u \<Longrightarrow> u \<in> set us \<and> P u"
  by (induction us) (auto split: if_splits)

lemma update_by_id_absent: "i \<notin> uid ` set us \<Longrightarrow> update_by_id i f us = None"
  by (induction us) auto

lemma update_by_id_map:
  "distinct (map uid us) \<Longrightarrow> i \<in> uid ` set us \<Longrightarrow>
     update_by_id i f us = Some (map (\<lambda>v. if uid v = i then f v else v) us)"
proof (induction us)
  case Nil
  then show ?case by simp
next
  case (Cons u us)
  show ?case
  proof (cases "uid u = i")
    case True
    from Cons.prems(1) have "uid u \<notin> uid ` set us" by simp
    with True have "\<forall>v \<in> set us. uid v \<noteq> i" by blast
    then have "map (\<lambda>v. if uid v = i then f v else v) us = us"
      by (induction us) auto
    with True show ?thesis by simp
  next
    case False
    with Cons show ?thesis by auto
  qed
qed

lemma save_new_User:
  "save l salt (new_User i n m pw) us =
     (if matches fullName_pattern n \<and> matches email_pattern m \<and> pw \<noteq> []
      then (if \<exists>u \<in> set us. email u = m then Inl (MongoServerError m)
            else Inr (us @ [\<lparr>uid = i, fullName = n, email = m,
                             password = bcrypt_hash l salt pw 10, imagePath = None\<rparr>]))
      else Inl (ValidationError (new_User i n m pw)))"
  by (auto simp: save_def validate_def new_User_def required_def match_def isModified_def
      pre_save_def insertOne_def)

lemma create_cases:
  "create l e req st =
     (if validationResult (create_chains l req) \<noteq> []
      then (Response 400 (ErrorOnly ''Validation failed''), st)
      else if \<exists>u \<in> set (users st). email u = normalizeEmail l (body_email req)
      then (Response 400 (ErrorOnly ''Email already registered''), st)
      else if matches email_pattern (normalizeEmail l (body_email req))
            \<and> bcrypt_hash l (handler_salt e) (body_password req) 10 \<noteq> []
      then (Response 201 (MessageOnly ''User created successfully''),
            st\<lparr>users := users st @
               [\<lparr>uid = fresh_id (users st), fullName = body_fullName req,
                 email = normalizeEmail l (body_email req),
                 password = bcrypt_hash l (hook_salt e)
                   (bcrypt_hash l (handler_salt e) (body_password req) 10) 10,
                 imagePath = None\<rparr>]\<rparr>)
      else (Response 500 (ErrorDetails ''User creation failed''
              (message l (ValidationError
                 (new_User (fresh_id (users st)) (body_fullName req)
                    (normalizeEmail l (body_email req))
                    (bcrypt_hash l (handler_salt e) (body_password req) 10))))), st))"
proof (cases "findOne (users st) (normalizeEmail l (body_email req))")
  case None
  then have no: "\<not> (\<exists>u \<in> set (users st). email u = normalizeEmail l (body_email req))"
    by (simp add: findOne_None_iff)
  show ?thesis
    using None no
    by (simp add: create_def Let_def sanitized_def save_new_User create_chains_pass)
next
  case (Some d)
  then have "\<exists>u \<in> set (users st). email u = normalizeEmail l (body_email req)"
    using findOne_None_iff [of "users st" "normalizeEmail l (body_email req)"] by auto
  then show ?thesis
    using Some by (simp add: create_def Let_def sanitized_def)
qed

lemma save_edited:
  assumes "distinct (map uid us)" and "u \<in> set us" and "matches fullName_pattern n"
  shows "save l salt (set_password (set_fullName (hydrate u) n) h) us =
     (if matches email_pattern (email u) \<and> h \<noteq> []
      then Inr (map (\<lambda>v. if uid v = uid u
                           then v\<lparr>fullName := n, password := bcrypt_hash l salt h 10\<rparr>
                           else v) us)
      else Inl (ValidationError (set_password (set_fullName (hydrate u) n) h)))"
proof -
  let ?d = "set_password (set_fullName (hydrate u) n) h"
  have mod: "isModified ?d Password" "\<not> isNew ?d" "doc_id ?d = uid u"
    "doc_password ?d = Some h" "doc_fullName ?d = n" "doc_email ?d = email u"
    "\<not> isModified ?d Email" "\<not> isModified ?d ImagePath"
    "isModified ?d FullName \<or> fullName u = n"
    by (auto simp: set_password_def set_fullName_def hydrate_def isModified_def)
  have val: "validate ?d = (matches email_pattern (email u) \<and> h \<noteq> [])"
    using assms(3) mod by (auto simp: validate_def required_def match_def)
  let ?d' = "?d\<lparr>doc_password := Some (bcrypt_hash l salt h 10)\<rparr>"
  have pre: "pre_save l salt ?d = Inr ?d'"
    using mod by (simp add: pre_save_def)
  have same: "\<And>v. uid v = uid u \<Longrightarrow> v \<in> set us \<Longrightarrow> v = u"
    using assms(1,2) by (meson distinct_map inj_onD)
  have ch: "apply_changes ?d' v = v\<lparr>fullName := n, password := bcrypt_hash l salt h 10\<rparr>"
    if "v \<in> set us" "uid v = uid u" for v
  proof -
    have "v = u" using that same by blast
    then show ?thesis
      using mod(9)
      by (auto simp: apply_changes_def isModified_def set_password_def set_fullName_def
          hydrate_def)
  qed
  have "update_by_id (uid u) (apply_changes ?d') us =
      Some (map (\<lambda>v. if uid v = uid u then apply_changes ?d' v else v) us)"
    using assms(1,2) by (intro update_by_id_map) auto
  also have "map (\<lambda>v. if uid v = uid u then apply_changes ?d' v else v) us =
      map (\<lambda>v. if uid v = uid u then v\<lparr>fullName := n, password := bcrypt_hash l salt h 10\<rparr> else v) us"
    using ch by (intro map_cong) auto
  finally have upd: "updateOne ?d' us = Inr (map (\<lambda>v. if uid v = uid u
                           then v\<lparr>fullName := n, password := bcrypt_hash l salt h 10\<rparr>
                           else v) us)"
    using mod by (simp add: updateOne_def)
  show ?thesis
    using val pre upd mod by (simp add: save_def)
qed

section \<open>Facts about the handlers\<close>

lemma edit_unknown:
  assumes "\<forall>u \<in> set (users st). email u \<noteq> body_email req"
  shows "edit l e req st =
     (if validationResult (edit_chains req) \<noteq> []
      then (Response 400 (ErrorOnly ''Validation failed''), st)
      else (Response 404 (ErrorOnly ''User not found''), st))"
proof -
  have "findOne (users st) (body_email req) = None"
    using assms by (simp add: findOne_None_iff)
  then show ?thesis by (simp add: edit_def Let_def)
qed

lemma edit_known:
  assumes "distinct (map uid (users st))"
    and "find (\<lambda>u. email u = body_email req) (users st) = Some u"
    and "validationResult (edit_chains req) = []"
  shows "edit l e req st =
     (if matches email_pattern (email u)
         \<and> bcrypt_hash l (handler_salt e) (body_password req) 10 \<noteq> []
      then (Response 200 (MessageOnly ''User updated successfully.''),
            st\<lparr>users := map (\<lambda>v. if uid v = uid u
                 then v\<lparr>fullName := body_fullName req,
                        password := bcrypt_hash l (hook_salt e)
                          (bcrypt_hash l (handler_salt e) (body_password req) 10) 10\<rparr>
                 else v) (users st)\<rparr>)
      else (Response 500 (ErrorDetails ''User Updation failed''
              (message l (ValidationError
                 (set_password (set_fullName (hydrate u) (body_fullName req))
                    (bcrypt_hash l (handler_salt e) (body_password req) 10))))), st))"
proof -
  have mem: "u \<in> set (users st)" using assms(2) find_Some_mem by fastforce
  have name: "matches fullName_pattern (body_fullName req)"
    using assms(3) by (simp add: edit_chains_pass)
  have found: "findOne (users st) (body_email req) = Some (hydrate u)"
    using assms(2) by (simp add: findOne_def)
  show ?thesis
    using assms(3) found save_edited [OF assms(1) mem name]
    by (simp add: edit_def Let_def)
qed

lemma delete_by_id_subset: "set (delete_by_id i us) \<subseteq> set us"
  by (induction us) auto

lemma delete_cases:
  "delete l e req st =
     (if validationResult (delete_chains l req) \<noteq> []
      then (Response 400 (ErrorOnly ''Validation failed''), st)
      else (case find (\<lambda>u. email u = normalizeEmail l (body_email req)) (users st) of
              None \<Rightarrow> (Response 404 (ErrorOnly ''User not found''), st)
            | Some u \<Rightarrow> (Response 200 (MessageOnly ''User deletion successful.''),
                 st\<lparr>users := delete_by_id (uid u) (users st)\<rparr>)))"
  by (simp add: delete_def Let_def sanitized_def findOne_def hydrate_def split: option.splits)

lemma upload_single_None [simp]: "upload_single e None st = Inr (None, st)"
  by (simp add: upload_single_def)

lemma upload_single_Some:
  "upload_single e (Some f) st =
     (if \<not> fileTypes_test (toLowerCase (mimetype f))
      then Inl (Error ''Invalid file format. Only JPEG, PNG, and GIF are allowed.'', st)
      else if fileSize_limit \<le> length (content f)
      then Inl (MulterError ''LIMIT_FILE_SIZE'',
                st\<lparr>files := (files st)(''images/'' @ storage_filename e f := None)\<rparr>)
      else Inr (Some \<lparr>path = ''images/'' @ storage_filename e f,
                      filename = storage_filename e f\<rparr>,
                st\<lparr>files := (files st)(''images/'' @ storage_filename e f \<mapsto> content f)\<rparr>))"
  by (simp add: upload_single_def fileFilter_def Let_def destination_def parsed_def
      storage_filename_def)

lemma undefined_path_not_format:
  "\<not> str_includes undefined_path_message ''Invalid file format''"
  by (simp add: undefined_path_message_def)

lemma catch_TypeError:
  "uploadImage_catch l (TypeError undefined_path_message) = Response 500 (ErrorOnly ''Server error.'')"
  by (simp add: uploadImage_catch_def message_def undefined_path_not_format)

lemma save_image:
  assumes "distinct (map uid us)" and "u \<in> set us"
  shows "save l salt (set_imagePath (hydrate u) p) us =
     (if matches fullName_pattern (fullName u) \<and> matches email_pattern (email u)
      then Inr (map (\<lambda>v. if uid v = uid u then v\<lparr>imagePath := Some p\<rparr> else v) us)
      else Inl (ValidationError (set_imagePath (hydrate u) p)))"
proof -
  let ?d = "set_imagePath (hydrate u) p"
  have mod: "\<not> isModified ?d Password" "\<not> isNew ?d" "doc_id ?d = uid u"
    "doc_fullName ?d = fullName u" "doc_email ?d = email u"
    "\<not> isModified ?d Email" "\<not> isModified ?d FullName"
    "isModified ?d ImagePath \<or> imagePath u = Some p" "doc_imagePath ?d = Some p"
    by (auto simp: set_imagePath_def hydrate_def isModified_def)
  have val: "validate ?d = (matches fullName_pattern (fullName u) \<and> matches email_pattern (email u))"
    using mod by (auto simp: validate_def required_def match_def)
  have pre: "pre_save l salt ?d = Inr ?d"
    using mod by (simp add: pre_save_def)
  have same: "\<And>v. uid v = uid u \<Longrightarrow> v \<in> set us \<Longrightarrow> v = u"
    using assms(1,2) by (meson distinct_map inj_onD)
  have ch: "apply_changes ?d v = v\<lparr>imagePath := Some p\<rparr>"
    if "v \<in> set us" "uid v = uid u" for v
  proof -
    have "v = u" using that same by blast
    then show ?thesis
      using mod(8)
      by (auto simp: apply_changes_def isModified_def set_imagePath_def hydrate_def)
  qed
  have "update_by_id (uid u) (apply_changes ?d) us =
      Some (map (\<lambda>v. if uid v = uid u then apply_changes ?d v else v) us)"
    using assms(1,2) by (intro update_by_id_map) auto
  also have "map (\<lambda>v. if uid v = uid u then apply_changes ?d v else v) us =
      map (\<lambda>v. if uid v = uid u then v\<lparr>imagePath := Some p\<rparr> else v) us"
    using ch by (intro map_cong) auto
  finally have upd: "updateOne ?d us =
      Inr (map (\<lambda>v. if uid v = uid u then v\<lparr>imagePath := Some p\<rparr> else v) us)"
    using mod by (simp add: updateOne_def)
  show ?thesis
    using val pre upd mod by (simp add: save_def)
qed

lemma handler_unknown:
  assumes "\<forall>u \<in> set (users st). email u \<noteq> body_email req"
  shows "uploadImage_handler l e req rf st = (Response 404 (ErrorOnly ''User not found.''), st)"
proof -
  have "findOne (users st) (body_email req) = None"
    using assms by (simp add: findOne_None_iff)
  then show ?thesis by (simp add: uploadImage_handler_def Let_def)
qed

lemma handler_has_image:
  assumes "find (\<lambda>u. email u = body_email req) (users st) = Some u" and "truthy (imagePath u)"
  shows "uploadImage_handler l e req rf st =
     (Response 400 (ErrorOnly ''Image already exists for this user.''), st)"
  using assms by (simp add: uploadImage_handler_def Let_def findOne_def hydrate_def)

lemma handler_no_file:
  assumes "find (\<lambda>u. email u = body_email req) (users st) = Some u" and "\<not> truthy (imagePath u)"
  shows "uploadImage_handler l e req None st = (Response 500 (ErrorOnly ''Server error.''), st)"
  using assms
  by (simp add: uploadImage_handler_def Let_def findOne_def hydrate_def catch_TypeError)

lemma handler_file:
  assumes "distinct (map uid (users st))"
    and "find (\<lambda>u. email u = body_email req) (users st) = Some u"
    and "\<not> truthy (imagePath u)"
  shows "uploadImage_handler l e req (Some f) st =
     (if matches fullName_pattern (fullName u) \<and> matches email_pattern (email u)
      then (Response 201 (MessageFile ''Image uploaded successfully.'' (''/images/'' @ filename f)),
            st\<lparr>users := map (\<lambda>v. if uid v = uid u then v\<lparr>imagePath := Some (path f)\<rparr> else v)
                           (users st)\<rparr>)
      else (uploadImage_catch l (ValidationError (set_imagePath (hydrate u) (path f))), st))"
proof -
  have mem: "u \<in> set (users st)" using assms(2) find_Some_mem by fastforce
  have found: "findOne (users st) (body_email req) = Some (hydrate u)"
    using assms(2) by (simp add: findOne_def)
  have "doc_imagePath (hydrate u) = imagePath u" by (simp add: hydrate_def)
  then show ?thesis
    using found assms(3) save_image [OF assms(1) mem]
    by (simp add: uploadImage_handler_def Let_def)
qed

section \<open>Facts about the password rule\<close>

lemma count_class_pos: "(Suc 0 \<le> count_class k str) = (\<exists>c \<in> set str. classify c = k)"
proof -
  have "(0 < length (filter (\<lambda>c. classify c = k) str)) = (\<exists>c \<in> set str. classify c = k)"
    by (simp add: filter_empty_conv)
  then show ?thesis by (simp add: count_class_def Suc_le_eq)
qed

lemma symbol_not_alnum: "symbol c \<Longrightarrow> \<not> upperCase c \<and> \<not> lowerCase c \<and> \<not> number c"
  by (auto simp: symbol_def symbols_def upperCase_def lowerCase_def number_def code_def)

lemma classify_iff:
  "(classify c = Uppercase) = upperCase c"
  "(classify c = Lowercase) = lowerCase c"
  "(classify c = Number) = number c"
  "(classify c = Symbol) = symbol c"
  using symbol_not_alnum [of c]
  by (auto simp: classify_def upperCase_def lowerCase_def number_def)

lemma isStrongPassword_route:
  "isStrongPassword p route_options =
     (8 \<le> length p \<and> (\<exists>c \<in> set p. upperCase c) \<and> (\<exists>c \<in> set p. lowerCase c)
      \<and> (\<exists>c \<in> set p. number c) \<and> (\<exists>c \<in> set p. symbol c))"
  by (auto simp: isStrongPassword_def route_options_def count_class_pos classify_iff)

lemma password1_weak: "\<not> isStrongPassword ''password1'' route_options"
  by (simp add: isStrongPassword_route symbol_def symbols_def)

lemma Password1_strong: "isStrongPassword ''Password1!'' route_options"
  by (simp add: isStrongPassword_route symbol_def symbols_def upperCase_def lowerCase_def number_def code_def)

section \<open>Evaluation on sample requests, and what a request keeps\<close>

lemmas char_defs = upperCase_def lowerCase_def number_def letter_def whiteSpace_def code_def
  symbol_def symbols_def not_space_at_def

lemma name_A_B: "matches fullName_pattern ''A B''"
  by (simp add: fullName_pattern_def char_defs)

lemma sample_names: "matches fullName_pattern ''X Y''" "matches fullName_pattern ''C D''"
  "matches fullName_pattern ''C E''"
  by (simp_all add: fullName_pattern_def char_defs)

lemma sample_isEmail: "isEmail sample_lib ''A@B.com''" "isEmail sample_lib ''a@b.com''"
  by (simp_all add: sample_lib_def email_pattern_def char_defs)

lemma sample_normalizeEmail:
  "normalizeEmail sample_lib ''A@B.com'' = ''a@b.com''"
  "normalizeEmail sample_lib ''a@b.com'' = ''a@b.com''"
  by (simp_all add: sample_lib_def toLowerCase_def)

lemma email_a_b: "matches email_pattern ''a@b.com''"
  by (simp add: email_pattern_def char_defs)

lemma email_samples: "matches email_pattern ''x@y.com''" "matches email_pattern ''c@d.com''"
  by (simp_all add: email_pattern_def char_defs)

lemma png_accepted: "fileTypes_test (toLowerCase ''image/png'')"
  "fileTypes_test (toLowerCase ''IMAGE/PNG'')"
  by (simp_all add: fileTypes_test_def toLowerCase_def)

lemma plain_refused: "\<not> fileTypes_test (toLowerCase ''text/plain'')"
  by (simp add: fileTypes_test_def toLowerCase_def)

lemma toString_5: "toString 5 = ''5''"
  by (simp add: toString.simps)

lemma sample_name_5: "storage_filename sample_env f = ''5-'' @ originalname f"
  by (simp add: storage_filename_def sample_env_def toString_5)

lemma find_append_None: "find P xs = None \<Longrightarrow> find P (xs @ ys) = find P ys"
  by (induction xs) (auto split: if_splits)

lemma parse_projection:
  "parse_select ''fullName email password '' =
     [(''fullName'', True), (''email'', True), (''password'', True)]"
  by (simp add: parse_select_def split_spaces_def whiteSpace_def code_def)

lemma parse_no_projection: "parse_select [] = []"
  by (simp add: parse_select_def split_spaces_def)

lemma quoted_address_accepted:
  "isEmail quoting_lib (CHR 0x22 # ''a b'' @ CHR 0x22 # ''@example.com'')"
  by (simp add: quoting_lib_def sample_lib_def quoted_address_pattern_def quoted_char_def
      char_defs)

lemma quoted_address_normalised:
  "normalizeEmail quoting_lib (CHR 0x22 # ''a b'' @ CHR 0x22 # ''@example.com'') =
     CHR 0x22 # ''a b'' @ CHR 0x22 # ''@example.com''"
  by (simp add: quoting_lib_def sample_lib_def toLowerCase_def)

lemma quoted_address_not_schema:
  "\<not> matches email_pattern (CHR 0x22 # ''a b'' @ CHR 0x22 # ''@example.com'')"
  by (simp add: email_pattern_def char_defs)

lemma upload_single_Inr:
  assumes "upload_single e part st = Inr (rf, st')"
  shows "users st' = users st"
    and "part = None \<Longrightarrow> rf = None \<and> st' = st"
    and "part = Some f \<Longrightarrow>
           rf = Some \<lparr>path = ''images/'' @ storage_filename e f, filename = storage_filename e f\<rparr>
           \<and> st' = st\<lparr>files := (files st)(''images/'' @ storage_filename e f \<mapsto> content f)\<rparr>
           \<and> fileTypes_test (toLowerCase (mimetype f)) \<and> length (content f) < fileSize_limit"
  using assms
  by (cases part; auto simp: upload_single_Some split: if_splits)+

lemma upload_single_Inl:
  assumes "upload_single e part st = Inl (err, st')"
  shows "users st' = users st"
    and "\<exists>f. part = Some f"
    and "(\<forall>f. part = Some f \<longrightarrow> p \<noteq> ''images/'' @ storage_filename e f)
           \<Longrightarrow> files st' p = files st p"
  using assms
  by (cases part; auto simp: upload_single_Some split: if_splits)+

lemma uploadImage_cases:
  assumes "distinct (map uid (users st))"
  shows "uploadImage l e req part st =
    (case upload_single e part st of
       Inl (err, st') \<Rightarrow> (NextError err, st')
     | Inr (rf, st') \<Rightarrow>
         (case find (\<lambda>u. email u = body_email req) (users st) of
            None \<Rightarrow> (Response 404 (ErrorOnly ''User not found.''), st')
          | Some u \<Rightarrow>
              if truthy (imagePath u)
              then (Response 400 (ErrorOnly ''Image already exists for this user.''), st')
              else (case rf of
                      None \<Rightarrow> (Response 500 (ErrorOnly ''Server error.''), st')
                    | Some f \<Rightarrow>
                        if matches fullName_pattern (fullName u)
                           \<and> matches email_pattern (email u)
                        then (Response 201 (MessageFile ''Image uploaded successfully.''
                                 (''/images/'' @ filename f)),
                              st'\<lparr>users := map (\<lambda>v. if uid v = uid u
                                     then v\<lparr>imagePath := Some (path f)\<rparr> else v) (users st)\<rparr>)
                        else (uploadImage_catch l
                                (ValidationError (set_imagePath (hydrate u) (path f))), st'))))"
proof (cases "upload_single e part st")
  case (Inl r)
  then show ?thesis by (cases r) (simp add: uploadImage_def)
next
  case (Inr r)
  obtain rf st' where r: "r = (rf, st')" by (cases r)
  have us: "users st' = users st"
    using Inr r upload_single_Inr(1) by blast
  then have d: "distinct (map uid (users st'))" using assms by simp
  show ?thesis
  proof (cases "find (\<lambda>u. email u = body_email req) (users st)")
    case None
    then have "\<forall>u \<in> set (users st'). email u \<noteq> body_email req"
      by (simp add: us find_None_iff)
    from handler_unknown [OF this] show ?thesis
      using Inr r None by (simp add: uploadImage_def)
  next
    case (Some u)
    then have f': "find (\<lambda>u. email u = body_email req) (users st') = Some u"
      by (simp add: us)
    show ?thesis
    proof (cases "truthy (imagePath u)")
      case True
      from handler_has_image [OF f' True] show ?thesis
        using Inr r Some True by (simp add: uploadImage_def)
    next
      case False
      show ?thesis
      proof (cases rf)
        case None
        from handler_no_file [OF f' False] show ?thesis
          using Inr r Some False None by (simp add: uploadImage_def)
      next
        case (Some f)
        from handler_file [OF d f' False] show ?thesis
          using Inr r \<open>find (\<lambda>u. email u = body_email req) (users st) = Some u\<close> False Some
          by (simp add: uploadImage_def us)
      qed
    qed
  qed
qed

lemma fresh_id_above: "u \<in> set us \<Longrightarrow> uid u < fresh_id us"
  by (induction us) (auto simp: fresh_id_def)

lemma same_uid:
  "distinct (map uid us) \<Longrightarrow> u \<in> set us \<Longrightarrow> v \<in> set us \<Longrightarrow> uid v = uid u \<Longrightarrow> v = u"
  by (meson distinct_map inj_onD)

lemma create_keeps:
  assumes "u' \<in> set (users (snd (create l e req st)))"
  shows "u' \<in> set (users st) \<or> (uid u' = fresh_id (users st) \<and> imagePath u' = None)"
  using assms by (auto simp: create_cases split: if_splits)

lemma edit_keeps:
  assumes "distinct (map uid (users st))" and "u' \<in> set (users (snd (edit l e req st)))"
  shows "\<exists>v \<in> set (users st). uid v = uid u' \<and> imagePath v = imagePath u'"
proof (cases "find (\<lambda>u. email u = body_email req) (users st)")
  case None
  then have "\<forall>u \<in> set (users st). email u \<noteq> body_email req"
    by (simp add: find_None_iff)
  from edit_unknown [OF this, of l e] assms(2) show ?thesis by (auto split: if_splits)
next
  case (Some u)
  show ?thesis
  proof (cases "validationResult (edit_chains req) = []")
    case True
    from edit_known [OF assms(1) Some True, of l e] assms(2) show ?thesis
      by (auto split: if_splits)
  next
    case False
    then show ?thesis using assms(2) by (auto simp: edit_def Let_def)
  qed
qed

lemma delete_keeps: "set (users (snd (delete l e req st))) \<subseteq> set (users st)"
  using delete_by_id_subset by (auto simp: delete_cases split: option.splits)

lemma uploadImage_keeps:
  assumes "distinct (map uid (users st))"
    and "u' \<in> set (users (snd (uploadImage l e req part st)))"
  shows "\<exists>v \<in> set (users st). uid v = uid u'
           \<and> (imagePath v = imagePath u' \<or> \<not> truthy (imagePath v))"
proof (cases "upload_single e part st")
  case (Inl r)
  obtain err st' where r: "r = (err, st')" by (cases r)
  have "users st' = users st"
    using Inl r upload_single_Inl(1) by blast
  then show ?thesis using Inl r assms(2) by (auto simp: uploadImage_cases [OF assms(1)])
next
  case (Inr r)
  obtain rf st' where r: "r = (rf, st')" by (cases r)
  have us: "users st' = users st"
    using Inr r upload_single_Inr(1) by blast
  show ?thesis
  proof (cases "find (\<lambda>u. email u = body_email req) (users st)")
    case None
    then show ?thesis using Inr r us assms(2) by (auto simp: uploadImage_cases [OF assms(1)])
  next
    case (Some u)
    then have "u \<in> set (users st)" using find_Some_mem by fastforce
    then show ?thesis
      using Inr r us Some assms(2) same_uid [OF assms(1)]
      by (cases rf) (auto simp: uploadImage_cases [OF assms(1)] split: if_splits)
  qed
qed

lemma imagePath_kept:
  assumes d: "distinct (map uid (users st))"
    and u: "u \<in> set (users st)" and t: "truthy (imagePath u)"
    and u': "u' \<in> set (users (snd (handle l e rq st)))" and same: "uid u' = uid u"
  shows "imagePath u' = imagePath u"
proof -
  have old: "v \<in> set (users st) \<Longrightarrow> uid v = uid u' \<Longrightarrow> v = u" for v
    using same_uid [OF d u] same by simp
  show ?thesis
  proof (cases rq)
    case (Create b)
    then show ?thesis
      using create_keeps [of u' l e b st] u' old fresh_id_above [OF u] same by auto
  next
    case (Edit b)
    then show ?thesis
      using edit_keeps [OF d, of u' l e b] u' old by auto
  next
    case (Delete b)
    then show ?thesis using delete_keeps [of l e b st] u' old by auto
  next
    case GetAll
    then show ?thesis using u' old by (auto simp: getAll_def)
  next
    case (UploadImage b part)
    then show ?thesis
      using uploadImage_keeps [OF d, of u' l e b part] u' old t by auto
  qed
qed

lemma sample_create_A:
  "create sample_lib sample_env
     \<lparr>body_email = ''A@B.com'', body_fullName = ''A B'', body_password = ''Password1!''\<rparr>
     \<lparr>users = [], files = Map.empty\<rparr>
   = (Response 201 (MessageOnly ''User created successfully''),
      \<lparr>users = [\<lparr>uid = 1, fullName = ''A B'', email = ''a@b.com'',
                  password = ''$2a$10$s2$2a$10$s1Password1!'', imagePath = None\<rparr>],
       files = Map.empty\<rparr>)"
  by (simp add: create_cases create_chains_pass name_A_B Password1_strong sample_isEmail
      sample_normalizeEmail email_a_b fresh_id_def)
    (simp add: sample_lib_def sample_env_def)

lemma sample_edit_a:
  "edit sample_lib sample_env
     \<lparr>body_email = ''a@b.com'', body_fullName = ''A C'', body_password = ''Password1!''\<rparr>
     \<lparr>users = [\<lparr>uid = 7, fullName = ''A B'', email = ''a@b.com'', password = ''h'',
                 imagePath = None\<rparr>], files = Map.empty\<rparr>
   = (Response 200 (MessageOnly ''User updated successfully.''),
      \<lparr>users = [\<lparr>uid = 7, fullName = ''A C'', email = ''a@b.com'',
                  password = ''$2a$10$s2$2a$10$s1Password1!'', imagePath = None\<rparr>],
       files = Map.empty\<rparr>)"
proof -
  have n: "matches fullName_pattern ''A C''"
    by (simp add: fullName_pattern_def char_defs)
  have v: "validationResult (edit_chains
     \<lparr>body_email = ''a@b.com'', body_fullName = ''A C'', body_password = ''Password1!''\<rparr>) = []"
    by (simp add: edit_chains_pass n Password1_strong)
  show ?thesis
    by (subst edit_known [where u = "\<lparr>uid = 7, fullName = ''A B'', email = ''a@b.com'', password = ''h'',
                 imagePath = None\<rparr>"])
      (simp_all add: v email_a_b sample_lib_def sample_env_def)
qed

lemma sample_create_third:
  "create sample_lib sample_env
     \<lparr>body_email = ''A@B.com'', body_fullName = ''A B'', body_password = ''Password1!''\<rparr>
     \<lparr>users = [\<lparr>uid = 7, fullName = ''X Y'', email = ''x@y.com'', password = ''h'',
                 imagePath = None\<rparr>,
               \<lparr>uid = 8, fullName = ''C D'', email = ''c@d.com'', password = ''h'',
                 imagePath = Some ''images/3-b.png''\<rparr>],
      files = [''images/3-b.png'' \<mapsto> ''old'']\<rparr>
   = (Response 201 (MessageOnly ''User created successfully''),
      \<lparr>users = [\<lparr>uid = 7, fullName = ''X Y'', email = ''x@y.com'', password = ''h'',
                 imagePath = None\<rparr>,
               \<lparr>uid = 8, fullName = ''C D'', email = ''c@d.com'', password = ''h'',
                 imagePath = Some ''images/3-b.png''\<rparr>,
               \<lparr>uid = 9, fullName = ''A B'', email = ''a@b.com'',
                 password = ''$2a$10$s2$2a$10$s1Password1!'', imagePath = None\<rparr>],
      files = [''images/3-b.png'' \<mapsto> ''old'']\<rparr>)"
  by (simp add: create_cases create_chains_pass name_A_B Password1_strong sample_isEmail
      sample_normalizeEmail email_a_b fresh_id_def)
    (simp add: sample_lib_def sample_env_def)

lemma sample_upload_first:
  "uploadImage sample_lib sample_env
     \<lparr>body_email = ''x@y.com'', body_fullName = '''', body_password = ''''\<rparr>
     (Some \<lparr>originalname = ''me.png'', mimetype = ''image/png'', content = ''abc''\<rparr>)
     \<lparr>users = [\<lparr>uid = 7, fullName = ''X Y'', email = ''x@y.com'', password = ''h'',
                 imagePath = None\<rparr>,
               \<lparr>uid = 8, fullName = ''C D'', email = ''c@d.com'', password = ''h'',
                 imagePath = Some ''images/3-b.png''\<rparr>],
      files = [''images/3-b.png'' \<mapsto> ''old'']\<rparr>
   = (Response 201 (MessageFile ''Image uploaded successfully.'' ''/images/5-me.png''),
      \<lparr>users = [\<lparr>uid = 7, fullName = ''X Y'', email = ''x@y.com'', password = ''h'',
                 imagePath = Some ''images/5-me.png''\<rparr>,
               \<lparr>uid = 8, fullName = ''C D'', email = ''c@d.com'', password = ''h'',
                 imagePath = Some ''images/3-b.png''\<rparr>],
      files = [''images/3-b.png'' \<mapsto> ''old'', ''images/5-me.png'' \<mapsto> ''abc'']\<rparr>)"
  by (subst uploadImage_cases)
    (simp_all add: upload_single_Some png_accepted fileSize_limit_def truthy_def sample_names
      email_samples storage_filename_def sample_env_def toString_5)

lemma sample_upload_second:
  "uploadImage sample_lib sample_env
     \<lparr>body_email = ''c@d.com'', body_fullName = '''', body_password = ''''\<rparr>
     (Some \<lparr>originalname = ''me.png'', mimetype = ''image/png'', content = ''abc''\<rparr>)
     \<lparr>users = [\<lparr>uid = 7, fullName = ''X Y'', email = ''x@y.com'', password = ''h'',
                 imagePath = None\<rparr>,
               \<lparr>uid = 8, fullName = ''C D'', email = ''c@d.com'', password = ''h'',
                 imagePath = Some ''images/3-b.png''\<rparr>],
      files = [''images/3-b.png'' \<mapsto> ''old'']\<rparr>
   = (Response 400 (ErrorOnly ''Image already exists for this user.''),
      \<lparr>users = [\<lparr>uid = 7, fullName = ''X Y'', email = ''x@y.com'', password = ''h'',
                 imagePath = None\<rparr>,
               \<lparr>uid = 8, fullName = ''C D'', email = ''c@d.com'', password = ''h'',
                 imagePath = Some ''images/3-b.png''\<rparr>],
      files = [''images/3-b.png'' \<mapsto> ''old'', ''images/5-me.png'' \<mapsto> ''abc'']\<rparr>)"
  by (subst uploadImage_cases)
    (simp_all add: upload_single_Some png_accepted fileSize_limit_def truthy_def
      storage_filename_def sample_env_def toString_5)

lemma sample_edit_second:
  "handle sample_lib sample_env
     (Edit \<lparr>body_email = ''c@d.com'', body_fullName = ''C E'', body_password = ''Password1!''\<rparr>)
     \<lparr>users = [\<lparr>uid = 7, fullName = ''X Y'', email = ''x@y.com'', password = ''h'',
                 imagePath = None\<rparr>,
               \<lparr>uid = 8, fullName = ''C D'', email = ''c@d.com'', password = ''h'',
                 imagePath = Some ''images/3-b.png''\<rparr>],
      files = [''images/3-b.png'' \<mapsto> ''old'']\<rparr>
   = (Response 200 (MessageOnly ''User updated successfully.''),
      \<lparr>users = [\<lparr>uid = 7, fullName = ''X Y'', email = ''x@y.com'', password = ''h'',
                 imagePath = None\<rparr>,
               \<lparr>uid = 8, fullName = ''C E'', email = ''c@d.com'',
                 password = ''$2a$10$s2$2a$10$s1Password1!'',
                 imagePath = Some ''images/3-b.png''\<rparr>],
      files = [''images/3-b.png'' \<mapsto> ''old'']\<rparr>)"
proof -
  have v: "validationResult (edit_chains
     \<lparr>body_email = ''c@d.com'', body_fullName = ''C E'', body_password = ''Password1!''\<rparr>) = []"
    by (simp add: edit_chains_pass sample_names Password1_strong)
  show ?thesis
    unfolding handle.simps
    by (subst edit_known [where u = "\<lparr>uid = 8, fullName = ''C D'', email = ''c@d.com'',
          password = ''h'', imagePath = Some ''images/3-b.png''\<rparr>"])
      (simp_all add: v email_samples sample_lib_def sample_env_def)
qed

section \<open>The stored password\<close>

text \<open>
  Claim C1. Whenever a create request is saved (the answer is 201), the new document is
  appended with, as its password, the hash of the hash of the submitted password: the
  handler hashes once, and the schema's hook, which sees the password path as modified,
  hashes the result again. Whenever an edit request is saved (the answer is 200), the
  document found under the request's email gets the same double hash of the new
  password. Identifiers of stored documents are distinct.
\<close>

theorem stored_password_double_hash:
  assumes "distinct (map uid (users st'))"
  shows "(fst (create l e req st) = Response 201 (MessageOnly ''User created successfully'')
      \<longrightarrow> users (snd (create l e req st)) = users st @
            [\<lparr>uid = fresh_id (users st), fullName = body_fullName req,
              email = normalizeEmail l (body_email req),
              password = bcrypt_hash l (hook_salt e)
                (bcrypt_hash l (handler_salt e) (body_password req) 10) 10,
              imagePath = None\<rparr>])
    \<and> (fst (edit l e' req' st') = Response 200 (MessageOnly ''User updated successfully.'')
      \<longrightarrow> (\<exists>u. find (\<lambda>u. email u = body_email req') (users st') = Some u
            \<and> users (snd (edit l e' req' st')) =
                map (\<lambda>v. if uid v = uid u
                         then v\<lparr>fullName := body_fullName req',
                                password := bcrypt_hash l (hook_salt e')
                                  (bcrypt_hash l (handler_salt e') (body_password req') 10) 10\<rparr>
                         else v) (users st')))"
proof (intro conjI impI)
  assume "fst (create l e req st) = Response 201 (MessageOnly ''User created successfully'')"
  then show "users (snd (create l e req st)) = users st @
            [\<lparr>uid = fresh_id (users st), fullName = body_fullName req,
              email = normalizeEmail l (body_email req),
              password = bcrypt_hash l (hook_salt e)
                (bcrypt_hash l (handler_salt e) (body_password req) 10) 10,
              imagePath = None\<rparr>]"
    by (simp add: create_cases split: if_splits)
next
  assume ok: "fst (edit l e' req' st') = Response 200 (MessageOnly ''User updated successfully.'')"
  show "\<exists>u. find (\<lambda>u. email u = body_email req') (users st') = Some u
            \<and> users (snd (edit l e' req' st')) =
                map (\<lambda>v. if uid v = uid u
                         then v\<lparr>fullName := body_fullName req',
                                password := bcrypt_hash l (hook_salt e')
                                  (bcrypt_hash l (handler_salt e') (body_password req') 10) 10\<rparr>
                         else v) (users st')"
  proof (cases "find (\<lambda>u. email u = body_email req') (users st')")
    case None
    then have "\<forall>u \<in> set (users st'). email u \<noteq> body_email req'"
      by (simp add: find_None_iff)
    from edit_unknown [OF this] ok show ?thesis by (simp split: if_splits)
  next
    case (Some u)
    have valid: "validationResult (edit_chains req') = []"
      using ok by (auto simp: edit_def Let_def split: if_splits)
    from edit_known [OF assms Some valid] ok have
      "users (snd (edit l e' req' st')) =
         map (\<lambda>v. if uid v = uid u
                  then v\<lparr>fullName := body_fullName req',
                         password := bcrypt_hash l (hook_salt e')
                           (bcrypt_hash l (handler_salt e') (body_password req') 10) 10\<rparr>
                  else v) (users st')"
      by (simp split: if_splits)
    with Some show ?thesis by simp
  qed
qed

theorem stored_password_double_hash_witness:
  "users (snd (create sample_lib sample_env
     \<lparr>body_email = ''A@B.com'', body_fullName = ''A B'', body_password = ''Password1!''\<rparr>
     \<lparr>users = [], files = Map.empty\<rparr>))
    = [\<lparr>uid = 1, fullName = ''A B'', email = ''a@b.com'',
        password = ''$2a$10$s2$2a$10$s1Password1!'', imagePath = None\<rparr>]
   \<and> users (snd (edit sample_lib sample_env
     \<lparr>body_email = ''a@b.com'', body_fullName = ''A C'', body_password = ''Password1!''\<rparr>
     \<lparr>users = [\<lparr>uid = 7, fullName = ''A B'', email = ''a@b.com'', password = ''h'',
                 imagePath = None\<rparr>], files = Map.empty\<rparr>))
    = [\<lparr>uid = 7, fullName = ''A C'', email = ''a@b.com'',
        password = ''$2a$10$s2$2a$10$s1Password1!'', imagePath = None\<rparr>]"
  using stored_password_double_hash [of
      "\<lparr>users = [\<lparr>uid = 7, fullName = ''A B'', email = ''a@b.com'', password = ''h'',
                 imagePath = None\<rparr>], files = Map.empty\<rparr>"
      sample_lib sample_env
      "\<lparr>body_email = ''A@B.com'', body_fullName = ''A B'', body_password = ''Password1!''\<rparr>"
      "\<lparr>users = [], files = Map.empty\<rparr>"
      sample_env
      "\<lparr>body_email = ''a@b.com'', body_fullName = ''A C'', body_password = ''Password1!''\<rparr>"]
  unfolding sample_create_A sample_edit_a by simp

section \<open>Normalisation of the email\<close>

text \<open>
  Claim C2, which the code does not meet. The create and delete routes normalise the
  address before they use it; the edit and uploadImage routes declare no chain for the
  email and look the user up under the address as it was sent. So after a successful
  create under an address that normalisation changes (one with upper-case letters), an
  edit and an upload under that very address find no user and answer 404, while a
  delete under it finds the user.
\<close>

theorem email_read_unnormalised:
  assumes "fst (create l e req st) = Response 201 (MessageOnly ''User created successfully'')"
    and "normalizeEmail l (body_email req) \<noteq> body_email req"
    and "\<forall>u \<in> set (users st). email u \<noteq> body_email req"
  shows "fst (edit l e' req (snd (create l e req st))) = Response 404 (ErrorOnly ''User not found'')
    \<and> fst (uploadImage l e' req None (snd (create l e req st))) =
        Response 404 (ErrorOnly ''User not found.'')
    \<and> fst (delete l e' req (snd (create l e req st))) =
        Response 200 (MessageOnly ''User deletion successful.'')"
proof -
  let ?m = "normalizeEmail l (body_email req)"
  let ?new = "\<lparr>uid = fresh_id (users st), fullName = body_fullName req, email = ?m,
       password = bcrypt_hash l (hook_salt e)
         (bcrypt_hash l (handler_salt e) (body_password req) 10) 10,
       imagePath = None\<rparr>"
  let ?st = "snd (create l e req st)"
  have valid: "validationResult (create_chains l req) = []"
    and fresh: "\<forall>u \<in> set (users st). email u \<noteq> ?m"
    and after: "users ?st = users st @ [?new]"
    using assms(1) by (auto simp: create_cases split: if_splits)
  have unknown: "\<forall>u \<in> set (users ?st). email u \<noteq> body_email req"
    using assms(2,3) by (auto simp: after)
  have chains: "validationResult (edit_chains req) = []"
    "validationResult (delete_chains l req) = []"
    using valid by (simp_all add: create_chains_pass edit_chains_pass delete_chains_pass)
  have "find (\<lambda>u. email u = ?m) (users st) = None"
    using fresh by (simp add: find_None_iff)
  then have "find (\<lambda>u. email u = ?m) (users st @ [?new]) = Some ?new"
    by (simp add: find_append_None)
  then have found: "find (\<lambda>u. email u = ?m) (users ?st) = Some ?new"
    by (simp add: after)
  have "fst (edit l e' req ?st) = Response 404 (ErrorOnly ''User not found'')"
    using edit_unknown [OF unknown] chains by simp
  moreover have "fst (uploadImage l e' req None ?st) = Response 404 (ErrorOnly ''User not found.'')"
    using handler_unknown [OF unknown] by (simp add: uploadImage_def)
  moreover have "fst (delete l e' req ?st) = Response 200 (MessageOnly ''User deletion successful.'')"
    using found chains by (simp add: delete_cases)
  ultimately show ?thesis by simp
qed

theorem email_read_unnormalised_witness:
  "fst (edit sample_lib sample_env
     \<lparr>body_email = ''A@B.com'', body_fullName = ''A B'', body_password = ''Password1!''\<rparr>
     (snd (create sample_lib sample_env
        \<lparr>body_email = ''A@B.com'', body_fullName = ''A B'', body_password = ''Password1!''\<rparr>
        \<lparr>users = [], files = Map.empty\<rparr>)))
    = Response 404 (ErrorOnly ''User not found'')
   \<and> fst (uploadImage sample_lib sample_env
     \<lparr>body_email = ''A@B.com'', body_fullName = ''A B'', body_password = ''Password1!''\<rparr> None
     (snd (create sample_lib sample_env
        \<lparr>body_email = ''A@B.com'', body_fullName = ''A B'', body_password = ''Password1!''\<rparr>
        \<lparr>users = [], files = Map.empty\<rparr>)))
    = Response 404 (ErrorOnly ''User not found.'')
   \<and> fst (delete sample_lib sample_env
     \<lparr>body_email = ''A@B.com'', body_fullName = ''A B'', body_password = ''Password1!''\<rparr>
     (snd (create sample_lib sample_env
        \<lparr>body_email = ''A@B.com'', body_fullName = ''A B'', body_password = ''Password1!''\<rparr>
        \<lparr>users = [], files = Map.empty\<rparr>)))
    = Response 200 (MessageOnly ''User deletion successful.'')"
proof -
  let ?req = "\<lparr>body_email = ''A@B.com'', body_fullName = ''A B'', body_password = ''Password1!''\<rparr>"
  let ?st = "\<lparr>users = [], files = Map.empty\<rparr>"
  have 1: "fst (create sample_lib sample_env ?req ?st)
      = Response 201 (MessageOnly ''User created successfully'')"
    by (simp add: sample_create_A)
  have 2: "normalizeEmail sample_lib (body_email ?req) \<noteq> body_email ?req"
    by (simp add: sample_normalizeEmail)
  have 3: "\<forall>u \<in> set (users ?st). email u \<noteq> body_email ?req"
    by simp
  show ?thesis
    by (rule email_read_unnormalised [OF 1 2 3])
qed

section \<open>Create with a registered email\<close>

text \<open>
  Claim C3, amended. When the normalised email of a create request is the email of a
  stored user, the answer has status 400 and the stored state is unchanged; the message
  is "Email already registered" when the request passes the validation chains and
  "Validation failed" when it does not (validation runs before the lookup).
\<close>

theorem create_registered_email:
  assumes "\<exists>u \<in> set (users st). email u = normalizeEmail l (body_email req)"
  shows "snd (create l e req st) = st
    \<and> status_of (fst (create l e req st)) = 400
    \<and> fst (create l e req st) =
        (if validationResult (create_chains l req) = []
         then Response 400 (ErrorOnly ''Email already registered'')
         else Response 400 (ErrorOnly ''Validation failed''))"
  using assms by (simp add: create_cases status_of_def)

theorem create_registered_email_witness:
  "fst (create sample_lib sample_env
         \<lparr>body_email = ''A@B.com'', body_fullName = ''A B'', body_password = ''Password1!''\<rparr>
         \<lparr>users = [\<lparr>uid = 7, fullName = ''A B'', email = ''a@b.com'', password = ''h'',
                     imagePath = None\<rparr>], files = Map.empty\<rparr>)
     = Response 400 (ErrorOnly ''Email already registered'')
   \<and> snd (create sample_lib sample_env
         \<lparr>body_email = ''A@B.com'', body_fullName = ''A B'', body_password = ''Password1!''\<rparr>
         \<lparr>users = [\<lparr>uid = 7, fullName = ''A B'', email = ''a@b.com'', password = ''h'',
                     imagePath = None\<rparr>], files = Map.empty\<rparr>)
     = \<lparr>users = [\<lparr>uid = 7, fullName = ''A B'', email = ''a@b.com'', password = ''h'',
                     imagePath = None\<rparr>], files = Map.empty\<rparr>"
  using create_registered_email [of
      "\<lparr>users = [\<lparr>uid = 7, fullName = ''A B'', email = ''a@b.com'', password = ''h'',
                     imagePath = None\<rparr>], files = Map.empty\<rparr>"
      sample_lib
      "\<lparr>body_email = ''A@B.com'', body_fullName = ''A B'', body_password = ''Password1!''\<rparr>"
      sample_env]
  by (simp add: create_chains_pass name_A_B Password1_strong sample_isEmail
      sample_normalizeEmail)

text \<open>
  The claim as first stated fails on a request with a registered email and the password
  "password1": the answer is the validation failure, not "Email already registered".
\<close>

theorem create_registered_email_counterexample:
  "fst (create sample_lib sample_env
         \<lparr>body_email = ''a@b.com'', body_fullName = ''A B'', body_password = ''password1''\<rparr>
         \<lparr>users = [\<lparr>uid = 7, fullName = ''A B'', email = ''a@b.com'', password = ''h'',
                     imagePath = None\<rparr>], files = Map.empty\<rparr>)
     = Response 400 (ErrorOnly ''Validation failed'')"
  using password1_weak by (simp add: create_cases create_chains_pass)

section \<open>Rejected uploads\<close>

text \<open>
  Claim C4, amended. The upload middleware rejects a file exactly when its declared
  content type, put in lower case, holds none of the words jpeg, jpg, png, gif, or its
  size is 5 MiB or more; a file of 6 MiB is rejected whatever its type. A rejected upload
  changes no user and no file other than the one under the name generated for it: a
  file refused for its type leaves the state as it was, and a file of an accepted type
  refused for its size leaves no file under that name. For a request the middleware
  lets through, on a collection of distinct identifiers whose users satisfy the
  schema's patterns, the router answers 400 exactly when the request names a stored
  user who already has an image.
\<close>

theorem upload_rejection_rules:
  assumes "distinct (map uid (users st))"
    and "\<forall>u \<in> set (users st).
           matches fullName_pattern (fullName u) \<and> matches email_pattern (email u)"
  shows "((\<exists>err st'. upload_single e (Some f) st = Inl (err, st')) =
            (\<not> fileTypes_test (toLowerCase (mimetype f))
             \<or> 5 * 1024 * 1024 \<le> length (content f)))
    \<and> (length (content f) = 6 * 1024 * 1024
          \<longrightarrow> (\<exists>err st'. upload_single e (Some f) st = Inl (err, st')))
    \<and> ((\<exists>err st'. upload_single e part st = Inl (err, st')) \<longrightarrow>
          users (snd (uploadImage l e req part st)) = users st
          \<and> (\<forall>p. (\<forall>g. part = Some g \<longrightarrow> p \<noteq> ''images/'' @ storage_filename e g)
                \<longrightarrow> files (snd (uploadImage l e req part st)) p = files st p))
    \<and> (\<not> fileTypes_test (toLowerCase (mimetype f'))
          \<longrightarrow> snd (uploadImage l e req (Some f') st) = st)
    \<and> (fileTypes_test (toLowerCase (mimetype f)) \<and> 5 * 1024 * 1024 \<le> length (content f)
          \<longrightarrow> files (snd (uploadImage l e req (Some f) st))
                (''images/'' @ storage_filename e f) = None)
    \<and> ((\<exists>rf st'. upload_single e part' st = Inr (rf, st')) \<longrightarrow>
          ((\<exists>b. fst (uploadImage l e req part' st) = Response 400 b) =
           (\<exists>u. find (\<lambda>u. email u = body_email req) (users st) = Some u
                \<and> truthy (imagePath u))))"
proof (intro conjI impI)
  show rule: "(\<exists>err st'. upload_single e (Some f) st = Inl (err, st')) =
            (\<not> fileTypes_test (toLowerCase (mimetype f))
             \<or> 5 * 1024 * 1024 \<le> length (content f))"
    by (simp add: upload_single_Some fileSize_limit_def)
  assume "length (content f) = 6 * 1024 * 1024"
  then show "\<exists>err st'. upload_single e (Some f) st = Inl (err, st')"
    using rule by simp
next
  assume "\<exists>err st'. upload_single e part st = Inl (err, st')"
  then obtain err st' where rejected: "upload_single e part st = Inl (err, st')" by blast
  then have run: "snd (uploadImage l e req part st) = st'"
    by (simp add: uploadImage_def)
  show "users (snd (uploadImage l e req part st)) = users st"
    using upload_single_Inl(1) [OF rejected] by (simp add: run)
  show "\<forall>p. (\<forall>g. part = Some g \<longrightarrow> p \<noteq> ''images/'' @ storage_filename e g)
          \<longrightarrow> files (snd (uploadImage l e req part st)) p = files st p"
    using upload_single_Inl(3) [OF rejected] by (simp add: run)
next
  assume "\<not> fileTypes_test (toLowerCase (mimetype f'))"
  then show "snd (uploadImage l e req (Some f') st) = st"
    by (simp add: uploadImage_def upload_single_Some)
next
  assume "fileTypes_test (toLowerCase (mimetype f)) \<and> 5 * 1024 * 1024 \<le> length (content f)"
  then show "files (snd (uploadImage l e req (Some f) st))
                (''images/'' @ storage_filename e f) = None"
    by (simp add: uploadImage_def upload_single_Some fileSize_limit_def)
next
  assume "\<exists>rf st'. upload_single e part' st = Inr (rf, st')"
  then obtain rf st' where passed: "upload_single e part' st = Inr (rf, st')" by blast
  show "(\<exists>b. fst (uploadImage l e req part' st) = Response 400 b) =
           (\<exists>u. find (\<lambda>u. email u = body_email req) (users st) = Some u
                \<and> truthy (imagePath u))"
  proof (cases "find (\<lambda>u. email u = body_email req) (users st)")
    case None
    then show ?thesis
      using passed by (simp add: uploadImage_cases [OF assms(1)])
  next
    case (Some u)
    then have "u \<in> set (users st)" using find_Some_mem by fastforce
    then have ok: "matches fullName_pattern (fullName u) \<and> matches email_pattern (email u)"
      using assms(2) by blast
    show ?thesis
      using passed Some ok
      by (cases rf) (simp_all add: uploadImage_cases [OF assms(1)])
  qed
qed

theorem upload_rejection_rules_witness:
  "(\<exists>err st'. upload_single sample_env
       (Some \<lparr>originalname = ''me.png'', mimetype = ''image/png'',
              content = replicate (6 * 1024 * 1024) (CHR ''x'')\<rparr>)
       \<lparr>users = [\<lparr>uid = 8, fullName = ''C D'', email = ''c@d.com'', password = ''h'',
                   imagePath = Some ''images/3-b.png''\<rparr>],
        files = [''images/3-b.png'' \<mapsto> ''old'']\<rparr> = Inl (err, st'))
   \<and> users (snd (uploadImage sample_lib sample_env
       \<lparr>body_email = ''c@d.com'', body_fullName = ''C D'', body_password = ''Password1!''\<rparr>
       (Some \<lparr>originalname = ''me.png'', mimetype = ''image/png'',
              content = replicate (6 * 1024 * 1024) (CHR ''x'')\<rparr>)
       \<lparr>users = [\<lparr>uid = 8, fullName = ''C D'', email = ''c@d.com'', password = ''h'',
                   imagePath = Some ''images/3-b.png''\<rparr>],
        files = [''images/3-b.png'' \<mapsto> ''old'']\<rparr>))
     = [\<lparr>uid = 8, fullName = ''C D'', email = ''c@d.com'', password = ''h'',
                   imagePath = Some ''images/3-b.png''\<rparr>]
   \<and> files (snd (uploadImage sample_lib sample_env
       \<lparr>body_email = ''c@d.com'', body_fullName = ''C D'', body_password = ''Password1!''\<rparr>
       (Some \<lparr>originalname = ''me.png'', mimetype = ''image/png'',
              content = replicate (6 * 1024 * 1024) (CHR ''x'')\<rparr>)
       \<lparr>users = [\<lparr>uid = 8, fullName = ''C D'', email = ''c@d.com'', password = ''h'',
                   imagePath = Some ''images/3-b.png''\<rparr>],
        files = [''images/3-b.png'' \<mapsto> ''old'']\<rparr>)) ''images/3-b.png'' = Some ''old''
   \<and> files (snd (uploadImage sample_lib sample_env
       \<lparr>body_email = ''c@d.com'', body_fullName = ''C D'', body_password = ''Password1!''\<rparr>
       (Some \<lparr>originalname = ''me.png'', mimetype = ''image/png'',
              content = replicate (6 * 1024 * 1024) (CHR ''x'')\<rparr>)
       \<lparr>users = [\<lparr>uid = 8, fullName = ''C D'', email = ''c@d.com'', password = ''h'',
                   imagePath = Some ''images/3-b.png''\<rparr>],
        files = [''images/3-b.png'' \<mapsto> ''old'']\<rparr>)) ''images/5-me.png'' = None
   \<and> snd (uploadImage sample_lib sample_env
       \<lparr>body_email = ''c@d.com'', body_fullName = ''C D'', body_password = ''Password1!''\<rparr>
       (Some \<lparr>originalname = ''notes.txt'', mimetype = ''text/plain'', content = ''abc''\<rparr>)
       \<lparr>users = [\<lparr>uid = 8, fullName = ''C D'', email = ''c@d.com'', password = ''h'',
                   imagePath = Some ''images/3-b.png''\<rparr>],
        files = [''images/3-b.png'' \<mapsto> ''old'']\<rparr>)
     = \<lparr>users = [\<lparr>uid = 8, fullName = ''C D'', email = ''c@d.com'', password = ''h'',
                   imagePath = Some ''images/3-b.png''\<rparr>],
        files = [''images/3-b.png'' \<mapsto> ''old'']\<rparr>
   \<and> (\<exists>b. fst (uploadImage sample_lib sample_env
       \<lparr>body_email = ''c@d.com'', body_fullName = ''C D'', body_password = ''Password1!''\<rparr>
       (Some \<lparr>originalname = ''me.png'', mimetype = ''IMAGE/PNG'', content = ''abc''\<rparr>)
       \<lparr>users = [\<lparr>uid = 8, fullName = ''C D'', email = ''c@d.com'', password = ''h'',
                   imagePath = Some ''images/3-b.png''\<rparr>],
        files = [''images/3-b.png'' \<mapsto> ''old'']\<rparr>) = Response 400 b)"
proof -
  let ?st = "\<lparr>users = [\<lparr>uid = 8, fullName = ''C D'', email = ''c@d.com'', password = ''h'',
                   imagePath = Some ''images/3-b.png''\<rparr>],
        files = [''images/3-b.png'' \<mapsto> ''old'']\<rparr>"
  let ?big = "\<lparr>originalname = ''me.png'', mimetype = ''image/png'',
              content = replicate (6 * 1024 * 1024) (CHR ''x'')\<rparr>"
  let ?plain = "\<lparr>originalname = ''notes.txt'', mimetype = ''text/plain'', content = ''abc''\<rparr>"
  let ?small = "\<lparr>originalname = ''me.png'', mimetype = ''IMAGE/PNG'', content = ''abc''\<rparr>"
  let ?req = "\<lparr>body_email = ''c@d.com'', body_fullName = ''C D'', body_password = ''Password1!''\<rparr>"
  have d: "distinct (map uid (users ?st))" by simp
  have v: "\<forall>u \<in> set (users ?st).
           matches fullName_pattern (fullName u) \<and> matches email_pattern (email u)"
    by (simp add: email_samples fullName_pattern_def char_defs)
  note th = upload_rejection_rules [OF d v, of sample_env ?big "Some ?big" sample_lib ?req
      ?plain "Some ?small"]
  have size: "length (content ?big) = 6 * 1024 * 1024" by simp
  have rejected: "\<exists>err st'. upload_single sample_env (Some ?big) ?st = Inl (err, st')"
    using th size by blast
  have users: "users (snd (uploadImage sample_lib sample_env ?req (Some ?big) ?st)) = users ?st"
    using th rejected by blast
  have other: "\<forall>g. Some ?big = Some g \<longrightarrow>
      ''images/3-b.png'' \<noteq> ''images/'' @ storage_filename sample_env g"
    by (simp add: sample_name_5)
  have kept: "files (snd (uploadImage sample_lib sample_env ?req (Some ?big) ?st))
      ''images/3-b.png'' = files ?st ''images/3-b.png''"
    using th rejected other by blast
  have big: "fileTypes_test (toLowerCase (mimetype ?big))
      \<and> 5 * 1024 * 1024 \<le> length (content ?big)"
    by (simp add: png_accepted)
  have gone: "files (snd (uploadImage sample_lib sample_env ?req (Some ?big) ?st))
      (''images/'' @ storage_filename sample_env ?big) = None"
    using th big by blast
  have plain: "\<not> fileTypes_test (toLowerCase (mimetype ?plain))"
    by (simp add: plain_refused)
  have same: "snd (uploadImage sample_lib sample_env ?req (Some ?plain) ?st) = ?st"
    using th plain by blast
  have passed: "\<exists>rf st'. upload_single sample_env (Some ?small) ?st = Inr (rf, st')"
    by (simp add: upload_single_Some png_accepted fileSize_limit_def)
  have has: "\<exists>u. find (\<lambda>u. email u = body_email ?req) (users ?st) = Some u
                \<and> truthy (imagePath u)"
    by (simp add: truthy_def)
  have answered: "\<exists>b. fst (uploadImage sample_lib sample_env ?req (Some ?small) ?st) = Response 400 b"
    using th passed has by blast
  show ?thesis
    using rejected users kept gone same answered by (simp add: sample_name_5)
qed

text \<open>
  The claim as first stated fails on a 6 MiB file of type image/png: the middleware's
  error goes to the framework, which answers 500, and no 400 is sent. It also fails on
  a small image/png file for a user who has an image: the answer is 400 although the
  file has an accepted type and size.
\<close>

theorem upload_rejection_rules_counterexample:
  "fst (uploadImage sample_lib sample_env
       \<lparr>body_email = ''x@y.com'', body_fullName = ''X Y'', body_password = ''Password1!''\<rparr>
       (Some \<lparr>originalname = ''me.png'', mimetype = ''image/png'',
              content = replicate (6 * 1024 * 1024) (CHR ''x'')\<rparr>)
       \<lparr>users = [\<lparr>uid = 7, fullName = ''X Y'', email = ''x@y.com'', password = ''h'',
                   imagePath = None\<rparr>], files = Map.empty\<rparr>)
     = NextError (MulterError ''LIMIT_FILE_SIZE'')
   \<and> status_of (fst (uploadImage sample_lib sample_env
       \<lparr>body_email = ''x@y.com'', body_fullName = ''X Y'', body_password = ''Password1!''\<rparr>
       (Some \<lparr>originalname = ''me.png'', mimetype = ''image/png'',
              content = replicate (6 * 1024 * 1024) (CHR ''x'')\<rparr>)
       \<lparr>users = [\<lparr>uid = 7, fullName = ''X Y'', email = ''x@y.com'', password = ''h'',
                   imagePath = None\<rparr>], files = Map.empty\<rparr>)) = 500
   \<and> fst (uploadImage sample_lib sample_env
       \<lparr>body_email = ''c@d.com'', body_fullName = ''C D'', body_password = ''Password1!''\<rparr>
       (Some \<lparr>originalname = ''me.png'', mimetype = ''image/png'', content = ''abc''\<rparr>)
       \<lparr>users = [\<lparr>uid = 8, fullName = ''C D'', email = ''c@d.com'', password = ''h'',
                   imagePath = Some ''images/3-b.png''\<rparr>],
        files = [''images/3-b.png'' \<mapsto> ''old'']\<rparr>)
     = Response 400 (ErrorOnly ''Image already exists for this user.'')"
  by (simp add: uploadImage_def upload_single_Some png_accepted fileSize_limit_def status_of_def
      uploadImage_handler_def findOne_def hydrate_def truthy_def Let_def)

section \<open>The image path is set once\<close>

text \<open>
  Claim C5, amended. On a collection of distinct identifiers: a created user has
  \<open>imagePath\<close> null; an upload answered 201 found a user without image, wrote the file
  and set the user's \<open>imagePath\<close> to its path; an upload for a user who has an image,
  once the middleware has let it through, is answered 400 with "Image already exists for
  this user.", leaves every user as it was and leaves every file as it was except the
  one the middleware has just written under the newly generated name; and no request of
  any kind changes an \<open>imagePath\<close> that is set.
\<close>

theorem imagePath_set_once:
  assumes "distinct (map uid (users st))"
  shows "(fst (create l e req st) = Response 201 (MessageOnly ''User created successfully'')
      \<longrightarrow> (\<exists>u. users (snd (create l e req st)) = users st @ [u] \<and> imagePath u = None))
    \<and> (fst (uploadImage l e req2 part2 st) = Response 201 b2
      \<longrightarrow> (\<exists>u f. find (\<lambda>u. email u = body_email req2) (users st) = Some u
            \<and> \<not> truthy (imagePath u) \<and> part2 = Some f
            \<and> truthy (Some (''images/'' @ storage_filename e f))
            \<and> users (snd (uploadImage l e req2 part2 st)) =
                map (\<lambda>v. if uid v = uid u
                         then v\<lparr>imagePath := Some (''images/'' @ storage_filename e f)\<rparr>
                         else v) (users st)
            \<and> files (snd (uploadImage l e req2 part2 st)) (''images/'' @ storage_filename e f)
                = Some (content f)))
    \<and> (find (\<lambda>u. email u = body_email req3) (users st) = Some u3 \<and> truthy (imagePath u3)
        \<and> (\<exists>rf st'. upload_single e part3 st = Inr (rf, st'))
      \<longrightarrow> fst (uploadImage l e req3 part3 st) =
            Response 400 (ErrorOnly ''Image already exists for this user.'')
          \<and> users (snd (uploadImage l e req3 part3 st)) = users st
          \<and> (\<forall>p. (\<forall>f. part3 = Some f \<longrightarrow> p \<noteq> ''images/'' @ storage_filename e f)
                \<longrightarrow> files (snd (uploadImage l e req3 part3 st)) p = files st p))
    \<and> (\<forall>u \<in> set (users st). \<forall>u' \<in> set (users (snd (handle l e rq st))).
          uid u' = uid u \<and> truthy (imagePath u) \<longrightarrow> imagePath u' = imagePath u)"
proof (intro conjI)
  show "fst (create l e req st) = Response 201 (MessageOnly ''User created successfully'')
      \<longrightarrow> (\<exists>u. users (snd (create l e req st)) = users st @ [u] \<and> imagePath u = None)"
    by (simp add: create_cases)
next
  show "fst (uploadImage l e req2 part2 st) = Response 201 b2
      \<longrightarrow> (\<exists>u f. find (\<lambda>u. email u = body_email req2) (users st) = Some u
            \<and> \<not> truthy (imagePath u) \<and> part2 = Some f
            \<and> truthy (Some (''images/'' @ storage_filename e f))
            \<and> users (snd (uploadImage l e req2 part2 st)) =
                map (\<lambda>v. if uid v = uid u
                         then v\<lparr>imagePath := Some (''images/'' @ storage_filename e f)\<rparr>
                         else v) (users st)
            \<and> files (snd (uploadImage l e req2 part2 st)) (''images/'' @ storage_filename e f)
                = Some (content f))"
  proof
    assume ok: "fst (uploadImage l e req2 part2 st) = Response 201 b2"
    show "\<exists>u f. find (\<lambda>u. email u = body_email req2) (users st) = Some u
            \<and> \<not> truthy (imagePath u) \<and> part2 = Some f
            \<and> truthy (Some (''images/'' @ storage_filename e f))
            \<and> users (snd (uploadImage l e req2 part2 st)) =
                map (\<lambda>v. if uid v = uid u
                         then v\<lparr>imagePath := Some (''images/'' @ storage_filename e f)\<rparr>
                         else v) (users st)
            \<and> files (snd (uploadImage l e req2 part2 st)) (''images/'' @ storage_filename e f)
                = Some (content f)"
    proof (cases part2)
      case None
      then show ?thesis
        using ok
        by (auto simp: uploadImage_cases [OF assms] uploadImage_catch_def
            split: option.splits if_splits)
    next
      case (Some f)
      show ?thesis
      proof (cases "upload_single e (Some f) st")
        case (Inl r)
        then show ?thesis using ok Some by (cases r) (simp add: uploadImage_cases [OF assms])
      next
        case (Inr r)
        obtain rf st' where r: "r = (rf, st')" by (cases r)
        note facts = upload_single_Inr(3) [OF Inr [unfolded r] refl]
        show ?thesis
          using ok Some Inr r facts
          by (auto simp: uploadImage_cases [OF assms] uploadImage_catch_def truthy_def
              split: option.splits if_splits)
      qed
    qed
  qed
next
  show "find (\<lambda>u. email u = body_email req3) (users st) = Some u3 \<and> truthy (imagePath u3)
        \<and> (\<exists>rf st'. upload_single e part3 st = Inr (rf, st'))
      \<longrightarrow> fst (uploadImage l e req3 part3 st) =
            Response 400 (ErrorOnly ''Image already exists for this user.'')
          \<and> users (snd (uploadImage l e req3 part3 st)) = users st
          \<and> (\<forall>p. (\<forall>f. part3 = Some f \<longrightarrow> p \<noteq> ''images/'' @ storage_filename e f)
                \<longrightarrow> files (snd (uploadImage l e req3 part3 st)) p = files st p)"
  proof (intro impI, elim conjE exE)
    fix rf st'
    assume found: "find (\<lambda>u. email u = body_email req3) (users st) = Some u3"
      and has: "truthy (imagePath u3)"
      and passed: "upload_single e part3 st = Inr (rf, st')"
    have run: "uploadImage l e req3 part3 st =
        (Response 400 (ErrorOnly ''Image already exists for this user.''), st')"
      using found has passed by (simp add: uploadImage_cases [OF assms])
    have "files st' p = files st p"
      if "\<forall>f. part3 = Some f \<longrightarrow> p \<noteq> ''images/'' @ storage_filename e f" for p
    proof (cases part3)
      case None
      then show ?thesis using upload_single_Inr(2) [OF passed] by simp
    next
      case (Some f)
      then show ?thesis using upload_single_Inr(3) [OF passed Some] that by simp
    qed
    then show "fst (uploadImage l e req3 part3 st) =
            Response 400 (ErrorOnly ''Image already exists for this user.'')
          \<and> users (snd (uploadImage l e req3 part3 st)) = users st
          \<and> (\<forall>p. (\<forall>f. part3 = Some f \<longrightarrow> p \<noteq> ''images/'' @ storage_filename e f)
                \<longrightarrow> files (snd (uploadImage l e req3 part3 st)) p = files st p)"
      using upload_single_Inr(1) [OF passed] by (simp add: run)
  qed
next
  show "\<forall>u \<in> set (users st). \<forall>u' \<in> set (users (snd (handle l e rq st))).
          uid u' = uid u \<and> truthy (imagePath u) \<longrightarrow> imagePath u' = imagePath u"
    using imagePath_kept [OF assms] by blast
qed

theorem imagePath_set_once_witness:
  "map imagePath (users (snd (create sample_lib sample_env
     \<lparr>body_email = ''A@B.com'', body_fullName = ''A B'', body_password = ''Password1!''\<rparr>
     \<lparr>users = [\<lparr>uid = 7, fullName = ''X Y'', email = ''x@y.com'', password = ''h'',
                 imagePath = None\<rparr>,
               \<lparr>uid = 8, fullName = ''C D'', email = ''c@d.com'', password = ''h'',
                 imagePath = Some ''images/3-b.png''\<rparr>],
      files = [''images/3-b.png'' \<mapsto> ''old'']\<rparr>)))
    = [None, Some ''images/3-b.png'', None]
   \<and> map imagePath (users (snd (uploadImage sample_lib sample_env
     \<lparr>body_email = ''x@y.com'', body_fullName = '''', body_password = ''''\<rparr>
     (Some \<lparr>originalname = ''me.png'', mimetype = ''image/png'', content = ''abc''\<rparr>)
     \<lparr>users = [\<lparr>uid = 7, fullName = ''X Y'', email = ''x@y.com'', password = ''h'',
                 imagePath = None\<rparr>,
               \<lparr>uid = 8, fullName = ''C D'', email = ''c@d.com'', password = ''h'',
                 imagePath = Some ''images/3-b.png''\<rparr>],
      files = [''images/3-b.png'' \<mapsto> ''old'']\<rparr>)))
    = [Some ''images/5-me.png'', Some ''images/3-b.png'']
   \<and> fst (uploadImage sample_lib sample_env
     \<lparr>body_email = ''c@d.com'', body_fullName = '''', body_password = ''''\<rparr>
     (Some \<lparr>originalname = ''me.png'', mimetype = ''image/png'', content = ''abc''\<rparr>)
     \<lparr>users = [\<lparr>uid = 7, fullName = ''X Y'', email = ''x@y.com'', password = ''h'',
                 imagePath = None\<rparr>,
               \<lparr>uid = 8, fullName = ''C D'', email = ''c@d.com'', password = ''h'',
                 imagePath = Some ''images/3-b.png''\<rparr>],
      files = [''images/3-b.png'' \<mapsto> ''old'']\<rparr>)
    = Response 400 (ErrorOnly ''Image already exists for this user.'')
   \<and> files (snd (uploadImage sample_lib sample_env
     \<lparr>body_email = ''c@d.com'', body_fullName = '''', body_password = ''''\<rparr>
     (Some \<lparr>originalname = ''me.png'', mimetype = ''image/png'', content = ''abc''\<rparr>)
     \<lparr>users = [\<lparr>uid = 7, fullName = ''X Y'', email = ''x@y.com'', password = ''h'',
                 imagePath = None\<rparr>,
               \<lparr>uid = 8, fullName = ''C D'', email = ''c@d.com'', password = ''h'',
                 imagePath = Some ''images/3-b.png''\<rparr>],
      files = [''images/3-b.png'' \<mapsto> ''old'']\<rparr>)) ''images/3-b.png''
    = Some ''old''
   \<and> map imagePath (users (snd (handle sample_lib sample_env
     (Edit \<lparr>body_email = ''c@d.com'', body_fullName = ''C E'', body_password = ''Password1!''\<rparr>)
     \<lparr>users = [\<lparr>uid = 7, fullName = ''X Y'', email = ''x@y.com'', password = ''h'',
                 imagePath = None\<rparr>,
               \<lparr>uid = 8, fullName = ''C D'', email = ''c@d.com'', password = ''h'',
                 imagePath = Some ''images/3-b.png''\<rparr>],
      files = [''images/3-b.png'' \<mapsto> ''old'']\<rparr>)))
    = [None, Some ''images/3-b.png'']"
  using imagePath_set_once [of
      "\<lparr>users = [\<lparr>uid = 7, fullName = ''X Y'', email = ''x@y.com'', password = ''h'',
                 imagePath = None\<rparr>,
               \<lparr>uid = 8, fullName = ''C D'', email = ''c@d.com'', password = ''h'',
                 imagePath = Some ''images/3-b.png''\<rparr>],
      files = [''images/3-b.png'' \<mapsto> ''old'']\<rparr>"
      sample_lib sample_env
      "\<lparr>body_email = ''A@B.com'', body_fullName = ''A B'', body_password = ''Password1!''\<rparr>"
      "\<lparr>body_email = ''x@y.com'', body_fullName = '''', body_password = ''''\<rparr>"
      "Some \<lparr>originalname = ''me.png'', mimetype = ''image/png'', content = ''abc''\<rparr>"
      "MessageFile ''Image uploaded successfully.'' ''/images/5-me.png''"
      "\<lparr>body_email = ''c@d.com'', body_fullName = '''', body_password = ''''\<rparr>"
      "\<lparr>uid = 8, fullName = ''C D'', email = ''c@d.com'', password = ''h'',
                 imagePath = Some ''images/3-b.png''\<rparr>"
      "Some \<lparr>originalname = ''me.png'', mimetype = ''image/png'', content = ''abc''\<rparr>"
      "Edit \<lparr>body_email = ''c@d.com'', body_fullName = ''C E'', body_password = ''Password1!''\<rparr>"]
  unfolding sample_create_third sample_upload_first sample_upload_second sample_edit_second
  by (simp add: storage_filename_def sample_env_def toString_5 truthy_def)

text \<open>
  The claim as first stated fails on a later upload whose file the middleware rejects
  (type text/plain): the handler is never reached and no 400 is sent.
\<close>

theorem imagePath_set_once_counterexample:
  "fst (uploadImage sample_lib sample_env
     \<lparr>body_email = ''c@d.com'', body_fullName = '''', body_password = ''''\<rparr>
     (Some \<lparr>originalname = ''notes.txt'', mimetype = ''text/plain'', content = ''abc''\<rparr>)
     \<lparr>users = [\<lparr>uid = 8, fullName = ''C D'', email = ''c@d.com'', password = ''h'',
                 imagePath = Some ''images/3-b.png''\<rparr>],
      files = [''images/3-b.png'' \<mapsto> ''old'']\<rparr>)
   = NextError (Error ''Invalid file format. Only JPEG, PNG, and GIF are allowed.'')"
  by (simp add: uploadImage_def upload_single_Some plain_refused)

section \<open>Create with a fresh email\<close>

text \<open>
  Claim C6, amended. A create request that passes the three validation chains, whose
  normalised address also has the shape the schema demands of an email and is the email
  of no stored user, is answered 201, given that the hash of the password is not the
  empty string; afterwards exactly one stored document has that email, and its password
  is the hook's hash of the handler's hash of the submitted password, so it differs
  from the submitted password whenever that digest does.
\<close>

theorem create_valid_fresh:
  assumes "validationResult (create_chains l req) = []"
    and "matches email_pattern (normalizeEmail l (body_email req))"
    and "\<forall>u \<in> set (users st). email u \<noteq> normalizeEmail l (body_email req)"
    and "bcrypt_hash l (handler_salt e) (body_password req) 10 \<noteq> []"
  shows "fst (create l e req st) = Response 201 (MessageOnly ''User created successfully'')
    \<and> length (filter (\<lambda>u. email u = normalizeEmail l (body_email req))
          (users (snd (create l e req st)))) = 1
    \<and> (\<forall>u \<in> set (users (snd (create l e req st))).
          email u = normalizeEmail l (body_email req) \<longrightarrow>
          password u = bcrypt_hash l (hook_salt e)
            (bcrypt_hash l (handler_salt e) (body_password req) 10) 10)
    \<and> (bcrypt_hash l (hook_salt e) (bcrypt_hash l (handler_salt e) (body_password req) 10) 10
          \<noteq> body_password req \<longrightarrow>
        (\<forall>u \<in> set (users (snd (create l e req st))).
          email u = normalizeEmail l (body_email req) \<longrightarrow> password u \<noteq> body_password req))"
proof -
  let ?m = "normalizeEmail l (body_email req)"
  let ?hh = "bcrypt_hash l (hook_salt e)
         (bcrypt_hash l (handler_salt e) (body_password req) 10) 10"
  let ?new = "\<lparr>uid = fresh_id (users st), fullName = body_fullName req, email = ?m,
       password = ?hh, imagePath = None\<rparr>"
  have run: "create l e req st =
      (Response 201 (MessageOnly ''User created successfully''),
       st\<lparr>users := users st @ [?new]\<rparr>)"
    using assms(1-4) by (simp add: create_cases)
  have none: "filter (\<lambda>u. email u = ?m) (users st) = []"
    using assms(3) by (simp add: filter_empty_conv)
  have one: "length (filter (\<lambda>u. email u = ?m) (users st @ [?new])) = 1"
    using none by simp
  have digest: "password u = ?hh"
    if "u \<in> set (users st @ [?new])" "email u = ?m" for u
  proof -
    have "u = ?new" using that assms(3) by auto
    then show ?thesis by simp
  qed
  show ?thesis
    using one digest by (simp add: run)
qed

theorem create_valid_fresh_witness:
  "fst (create sample_lib sample_env
     \<lparr>body_email = ''A@B.com'', body_fullName = ''A B'', body_password = ''Password1!''\<rparr>
     \<lparr>users = [], files = Map.empty\<rparr>)
    = Response 201 (MessageOnly ''User created successfully'')
   \<and> length (filter (\<lambda>u. email u = ''a@b.com'') (users (snd (create sample_lib sample_env
     \<lparr>body_email = ''A@B.com'', body_fullName = ''A B'', body_password = ''Password1!''\<rparr>
     \<lparr>users = [], files = Map.empty\<rparr>)))) = 1
   \<and> map password (users (snd (create sample_lib sample_env
     \<lparr>body_email = ''A@B.com'', body_fullName = ''A B'', body_password = ''Password1!''\<rparr>
     \<lparr>users = [], files = Map.empty\<rparr>))) = [''$2a$10$s2$2a$10$s1Password1!'']"
proof -
  let ?req = "\<lparr>body_email = ''A@B.com'', body_fullName = ''A B'', body_password = ''Password1!''\<rparr>"
  let ?st = "\<lparr>users = [], files = Map.empty\<rparr>"
  have 1: "validationResult (create_chains sample_lib ?req) = []"
    by (simp add: create_chains_pass name_A_B Password1_strong sample_isEmail)
  have 2: "matches email_pattern (normalizeEmail sample_lib (body_email ?req))"
    by (simp add: sample_normalizeEmail email_a_b)
  have 3: "\<forall>u \<in> set (users ?st). email u \<noteq> normalizeEmail sample_lib (body_email ?req)"
    by simp
  have 4: "bcrypt_hash sample_lib (handler_salt sample_env) (body_password ?req) 10 \<noteq> []"
    by (simp add: sample_lib_def)
  from create_valid_fresh [OF 1 2 3 4]
  have "fst (create sample_lib sample_env ?req ?st)
      = Response 201 (MessageOnly ''User created successfully'')"
    and "length (filter (\<lambda>u. email u = normalizeEmail sample_lib (body_email ?req))
          (users (snd (create sample_lib sample_env ?req ?st)))) = 1"
    by blast+
  then show ?thesis
    by (simp add: sample_normalizeEmail) (simp add: sample_create_A)
qed

text \<open>
  The claim as first stated fails on an address with a quoted local part that holds a
  space: the request passes the three chains (the validator library accepts such an
  address), the schema's pattern refuses the address when the document is saved, and
  the answer is 500 with nothing stored.
\<close>

theorem create_valid_fresh_counterexample:
  "validationResult (create_chains quoting_lib
     \<lparr>body_email = CHR 0x22 # ''a b'' @ CHR 0x22 # ''@example.com'', body_fullName = ''A B'',
      body_password = ''Password1!''\<rparr>) = []
   \<and> create quoting_lib sample_env
     \<lparr>body_email = CHR 0x22 # ''a b'' @ CHR 0x22 # ''@example.com'', body_fullName = ''A B'',
      body_password = ''Password1!''\<rparr>
     \<lparr>users = [], files = Map.empty\<rparr>
    = (Response 500 (ErrorDetails ''User creation failed'' ''error''),
       \<lparr>users = [], files = Map.empty\<rparr>)"
proof -
  let ?mail = "CHR 0x22 # ''a b'' @ CHR 0x22 # ''@example.com''"
  let ?req = "\<lparr>body_email = ?mail, body_fullName = ''A B'', body_password = ''Password1!''\<rparr>"
  have chains: "validationResult (create_chains quoting_lib ?req) = []"
    using quoted_address_accepted
    by (simp add: create_chains_pass name_A_B Password1_strong)
  have schema: "\<not> matches email_pattern (normalizeEmail quoting_lib (body_email ?req))"
    using quoted_address_not_schema quoted_address_normalised by simp
  have msg: "message quoting_lib err = ''error''" if "\<exists>d. err = ValidationError d" for err
    using that by (auto simp: message_def quoting_lib_def sample_lib_def)
  have "create quoting_lib sample_env ?req \<lparr>users = [], files = Map.empty\<rparr>
    = (Response 500 (ErrorDetails ''User creation failed'' ''error''),
       \<lparr>users = [], files = Map.empty\<rparr>)"
    using chains schema by (simp add: create_cases msg)
  with chains show ?thesis by simp
qed

section \<open>Edit of an unknown email\<close>

text \<open>
  Claim C7, amended. When no stored user has the email of an edit request, the stored
  state is unchanged, and the answer is 404 "User not found" when the request passes
  the validation chains of the route and 400 "Validation failed" when it does not.
\<close>

theorem edit_unknown_email:
  assumes "\<forall>u \<in> set (users st). email u \<noteq> body_email req"
  shows "snd (edit l e req st) = st
    \<and> fst (edit l e req st) =
        (if validationResult (edit_chains req) = []
         then Response 404 (ErrorOnly ''User not found'')
         else Response 400 (ErrorOnly ''Validation failed''))"
  using edit_unknown [OF assms] by simp

theorem edit_unknown_email_witness:
  "fst (edit sample_lib \<lparr>now = 5, handler_salt = ''s1'', hook_salt = ''s2''\<rparr>
         \<lparr>body_email = ''c@d.com'', body_fullName = ''A B'', body_password = ''Password1!''\<rparr>
         \<lparr>users = [\<lparr>uid = 7, fullName = ''A B'', email = ''a@b.com'', password = ''h'',
                     imagePath = None\<rparr>], files = Map.empty\<rparr>)
     = Response 404 (ErrorOnly ''User not found'')
   \<and> snd (edit sample_lib \<lparr>now = 5, handler_salt = ''s1'', hook_salt = ''s2''\<rparr>
         \<lparr>body_email = ''c@d.com'', body_fullName = ''A B'', body_password = ''Password1!''\<rparr>
         \<lparr>users = [\<lparr>uid = 7, fullName = ''A B'', email = ''a@b.com'', password = ''h'',
                     imagePath = None\<rparr>], files = Map.empty\<rparr>)
     = \<lparr>users = [\<lparr>uid = 7, fullName = ''A B'', email = ''a@b.com'', password = ''h'',
                     imagePath = None\<rparr>], files = Map.empty\<rparr>"
  using edit_unknown_email [of
      "\<lparr>users = [\<lparr>uid = 7, fullName = ''A B'', email = ''a@b.com'', password = ''h'',
                     imagePath = None\<rparr>], files = Map.empty\<rparr>"
      "\<lparr>body_email = ''c@d.com'', body_fullName = ''A B'', body_password = ''Password1!''\<rparr>"
      sample_lib "\<lparr>now = 5, handler_salt = ''s1'', hook_salt = ''s2''\<rparr>"]
  by (simp add: edit_chains_pass name_A_B Password1_strong)

text \<open>
  The claim as first stated fails on a request with the password "password1": the
  answer is 400, not 404.
\<close>

theorem edit_unknown_email_counterexample:
  "fst (edit sample_lib \<lparr>now = 5, handler_salt = ''s1'', hook_salt = ''s2''\<rparr>
         \<lparr>body_email = ''a@b.com'', body_fullName = ''A B'', body_password = ''password1''\<rparr>
         \<lparr>users = [], files = Map.empty\<rparr>)
     = Response 400 (ErrorOnly ''Validation failed'')"
  using password1_weak by (simp add: edit_def Let_def edit_chains_pass)

section \<open>The list of users\<close>

text \<open>
  Claim C8, amended. The getAll operation validates nothing and always answers 200 with
  one entry per stored user, in order, holding exactly four fields: the identifier, the
  fullName, the email and the stored password; \<open>imagePath\<close> is left out, and the state is
  unchanged. The projection string names the password path, which brings it into the
  entries although the schema declares \<^verbatim>\<open>select: false\<close>: a query without projection leaves
  the password out.
\<close>

theorem getAll_lists_everything:
  "handle l e GetAll st =
     (Response 200 (UsersList (map (\<lambda>u.
        [(''_id'', ObjectId (uid u)), (''fullName'', String (fullName u)),
         (''email'', String (email u)), (''password'', String (password u))]) (users st))), st)
   \<and> parse_select ''fullName email password '' =
       [(''fullName'', True), (''email'', True), (''password'', True)]
   \<and> ''password'' \<notin> fst ` set (select_fields (parse_select []) (toObject u))"
proof -
  have entry: "select_fields [(''fullName'', True), (''email'', True), (''password'', True)]
        (toObject v) =
      [(''_id'', ObjectId (uid v)), (''fullName'', String (fullName v)),
       (''email'', String (email v)), (''password'', String (password v))]" for v
    by (simp add: select_fields_def toObject_def)
  have default: "''password'' \<notin> fst ` set (select_fields (parse_select []) (toObject u))"
    by (simp add: parse_no_projection select_fields_def toObject_def unselected_def)
  show ?thesis
    using default by (simp add: getAll_def find_all_def entry parse_projection)
qed

text \<open>
  The claim as first stated fails on any stored user: the entry holds the identifier
  besides the three named fields.
\<close>

theorem getAll_lists_everything_counterexample:
  "fst (getAll \<lparr>users = [\<lparr>uid = 7, fullName = ''A B'', email = ''a@b.com'', password = ''h'',
                           imagePath = None\<rparr>], files = Map.empty\<rparr>)
     = Response 200 (UsersList
         [[(''_id'', ObjectId 7), (''fullName'', String ''A B''), (''email'', String ''a@b.com''),
           (''password'', String ''h'')]])
   \<and> map (map fst) (find_all [\<lparr>uid = 7, fullName = ''A B'', email = ''a@b.com'',
                                password = ''h'', imagePath = None\<rparr>]
                       ''fullName email password '')
     = [[''_id'', ''fullName'', ''email'', ''password'']]"
  by (simp add: getAll_def find_all_def parse_projection select_fields_def toObject_def)

section \<open>The password rule\<close>


section \<open>Upload without a file\<close>

text \<open>
  Claim C10. An uploadImage request without a file part that names a stored user whose
  \<open>imagePath\<close> is null is answered 500 "Server error." with the state unchanged: reading
  the path of the undefined \<^verbatim>\<open>req.file\<close> throws a TypeError, whose message does not include
  "Invalid file format", so the catch block takes its generic branch. The route declares
  no validation chain, so its validation result is always empty.
\<close>

theorem upload_without_file:
  assumes "find (\<lambda>u. email u = body_email req) (users st) = Some u"
    and "imagePath u = None"
  shows "uploadImage l e req None st = (Response 500 (ErrorOnly ''Server error.''), st)
    \<and> uploadImage_catch l (TypeError undefined_path_message) =
        Response 500 (ErrorOnly ''Server error.'')
    \<and> \<not> str_includes undefined_path_message ''Invalid file format''
    \<and> validationResult [] = []"
proof -
  have "\<not> truthy (imagePath u)" using assms(2) by (simp add: truthy_def)
  then show ?thesis
    using handler_no_file [OF assms(1)]
    by (simp add: uploadImage_def catch_TypeError undefined_path_not_format)
qed

theorem upload_without_file_witness:
  "uploadImage sample_lib sample_env
     \<lparr>body_email = ''a@b.com'', body_fullName = '''', body_password = ''''\<rparr> None
     \<lparr>users = [\<lparr>uid = 7, fullName = ''A B'', email = ''a@b.com'', password = ''h'',
                 imagePath = None\<rparr>], files = Map.empty\<rparr>
   = (Response 500 (ErrorOnly ''Server error.''),
      \<lparr>users = [\<lparr>uid = 7, fullName = ''A B'', email = ''a@b.com'', password = ''h'',
                 imagePath = None\<rparr>], files = Map.empty\<rparr>)"
  using upload_without_file [of
      "\<lparr>body_email = ''a@b.com'', body_fullName = '''', body_password = ''''\<rparr>"
      "\<lparr>users = [\<lparr>uid = 7, fullName = ''A B'', email = ''a@b.com'', password = ''h'',
                 imagePath = None\<rparr>], files = Map.empty\<rparr>"
      "\<lparr>uid = 7, fullName = ''A B'', email = ''a@b.com'', password = ''h'',
                 imagePath = None\<rparr>"
      sample_lib sample_env]
  by simp

end
